theory Spec2Isabelle
  imports Main "HOL-Library.AList" "HOL-Library.Sublist"
begin

section \<open>Strings and paths\<close>

text \<open>
  JavaScript strings are modelled as \<open>string\<close>. Every pattern and separator the two
  scripts use is ASCII, so nothing below depends on how wider characters are encoded.
\<close>

definition newline :: char where
  "newline = CHR 0x0A"

text \<open>
  \<open>s.split(sep)\<close> for a one-character separator: a string with \<open>n\<close> separators
  yields \<open>n + 1\<close> pieces, and the empty string yields one empty piece.
\<close>

fun split :: "char \<Rightarrow> string \<Rightarrow> string list" where
  "split sep [] = [[]]"
| "split sep (c # cs) =
     (if c = sep then [] # split sep cs
      else (case split sep cs of
              [] \<Rightarrow> [[c]]
            | piece # pieces \<Rightarrow> (c # piece) # pieces))"

text \<open>
  How the operating system reads a path: empty segments and \<open>.\<close> are skipped and
  \<open>..\<close> steps to the parent. A path is read from the root of the tree; the layout's
  paths are absolute.
\<close>

definition resolve_step :: "string list \<Rightarrow> string \<Rightarrow> string list" where
  "resolve_step acc s =
     (if s = [] \<or> s = ''.'' then acc
      else if s = ''..'' then butlast acc
      else acc @ [s])"

definition resolve :: "string \<Rightarrow> string list" where
  "resolve p = foldl resolve_step [] (split CHR ''/'' p)"

text \<open>
  \<open>path.join(a, b)\<close> puts a separator between its arguments and normalises the result;
  the normal form names the same file as the plain concatenation, which is what the model
  keeps.
\<close>

definition join :: "string \<Rightarrow> string \<Rightarrow> string" where
  "join a b = a @ ''/'' @ b"

text \<open>Decimal text of a number, as \<open>`${n}`\<close> prints a non-negative integer.\<close>

definition digit_char :: "nat \<Rightarrow> char" where
  "digit_char d = char_of (48 + d)"

function show_nat :: "nat \<Rightarrow> string" where
  "show_nat n = (if n < 10 then [digit_char n] else show_nat (n div 10) @ [digit_char (n mod 10)])"
  by pat_completeness auto
termination
  by (relation "measure id") auto

declare show_nat.simps [simp del]

section \<open>The file system\<close>

text \<open>
  A tree of directories and files. A directory keeps its entries in listing order, the
  order in which \<open>readdirSync\<close> reports them.
\<close>

datatype node = File string | Dir "(string \<times> node) list"

datatype fs_error = ENOENT | ENOTDIR | EISDIR | EEXIST | EBUSY

fun lookup :: "string list \<Rightarrow> node \<Rightarrow> node option" where
  "lookup [] n = Some n"
| "lookup (s # p) (File c) = None"
| "lookup (s # p) (Dir es) =
     (case map_of es s of None \<Rightarrow> None | Some c \<Rightarrow> lookup p c)"

text \<open>Recursive removal of the entry at a path; the root itself is never removed.\<close>

fun remove :: "string list \<Rightarrow> node \<Rightarrow> node" where
  "remove [] n = n"
| "remove (s # p) (File c) = File c"
| "remove [s] (Dir es) = Dir (AList.delete s es)"
| "remove (s # t # p) (Dir es) =
     (case map_of es s of
        None \<Rightarrow> Dir es
      | Some c \<Rightarrow> Dir (AList.update s (remove (t # p) c) es))"

text \<open>\<open>mkdir -p\<close>: creates the missing directories along the path.\<close>

fun mkdirp :: "string list \<Rightarrow> node \<Rightarrow> fs_error + node" where
  "mkdirp [] (Dir es) = Inr (Dir es)"
| "mkdirp [] (File c) = Inl EEXIST"
| "mkdirp (s # p) (File c) = Inl ENOTDIR"
| "mkdirp (s # p) (Dir es) =
     (case mkdirp p (case map_of es s of None \<Rightarrow> Dir [] | Some c \<Rightarrow> c) of
        Inl e \<Rightarrow> Inl e
      | Inr c' \<Rightarrow> Inr (Dir (AList.update s c' es)))"

text \<open>
  Creating or truncating a file and writing its content. The parent directory must
  exist, and the path must not name a directory.
\<close>

fun write_file :: "string list \<Rightarrow> string \<Rightarrow> node \<Rightarrow> fs_error + node" where
  "write_file [] d n = Inl EISDIR"
| "write_file (s # p) d (File c) = Inl ENOTDIR"
| "write_file [s] d (Dir es) =
     (case map_of es s of
        Some (Dir cs) \<Rightarrow> Inl EISDIR
      | _ \<Rightarrow> Inr (Dir (AList.update s (File d) es)))"
| "write_file (s # t # p) d (Dir es) =
     (case map_of es s of
        None \<Rightarrow> Inl ENOENT
      | Some c \<Rightarrow>
          (case write_file (t # p) d c of
             Inl e \<Rightarrow> Inl e
           | Inr c' \<Rightarrow> Inr (Dir (AList.update s c' es))))"

definition listing :: "string list \<Rightarrow> node \<Rightarrow> fs_error + string list" where
  "listing p root =
     (case lookup p root of
        None \<Rightarrow> Inl ENOENT
      | Some (File c) \<Rightarrow> Inl ENOTDIR
      | Some (Dir es) \<Rightarrow> Inr (map fst es))"

text \<open>The four calls of Node's \<open>fs\<close> module that the scripts make, on string paths.\<close>

definition existsSync :: "string \<Rightarrow> node \<Rightarrow> bool" where
  "existsSync p root = (lookup (resolve p) root \<noteq> None)"

definition rmSync :: "string \<Rightarrow> node \<Rightarrow> fs_error + node" where
  \<comment> \<open>\<open>rmSync(p, { recursive: true })\<close>, without \<open>force\<close>: a missing path is an error.\<close>
  "rmSync p root =
     (let q = resolve p
      in if q = [] then Inl EBUSY
         else if lookup q root = None then Inl ENOENT
         else Inr (remove q root))"

definition mkdirSync :: "string \<Rightarrow> node \<Rightarrow> fs_error + node" where
  \<comment> \<open>\<open>mkdirSync(p, { recursive: true })\<close>\<close>
  "mkdirSync p root = mkdirp (resolve p) root"

definition readdirSync :: "string \<Rightarrow> node \<Rightarrow> fs_error + string list" where
  "readdirSync p root = listing (resolve p) root"

text \<open>
  A path whose last segment is empty (a trailing \<open>/\<close>), \<open>.\<close> or \<open>..\<close> names a
  directory: nothing can be opened for writing under such a name.
\<close>

definition names_directory :: "string \<Rightarrow> bool" where
  "names_directory p =
     (let s = last (split CHR ''/'' p) in s = [] \<or> s = ''.'' \<or> s = ''..'')"

definition writeFileSync :: "string \<Rightarrow> string \<Rightarrow> node \<Rightarrow> fs_error + node" where
  "writeFileSync p d root =
     (if names_directory p then
        (case write_file (resolve p) d root of
           Inl e \<Rightarrow> Inl e
         | Inr root' \<Rightarrow>
             (case lookup (resolve p) root of
                Some (File c) \<Rightarrow> Inl ENOTDIR
              | _ \<Rightarrow> if last (split CHR ''/'' p) = [] then Inl EISDIR else Inl ENOENT))
      else write_file (resolve p) d root)"

section \<open>Thrown values, the console and the external collaborators\<close>

text \<open>
  What a \<open>catch\<close> clause can receive: an \<open>Error\<close> object with its name and message, or
  any other value, kept as the text \<open>String(value)\<close> gives.
\<close>

datatype thrown = ErrorObject string string | NonError string

fun message_of :: "thrown \<Rightarrow> string" where
  \<comment> \<open>\<open>error instanceof Error ? error.message : String(error)\<close>\<close>
  "message_of (ErrorObject name msg) = msg"
| "message_of (NonError text) = text"

fun text_of :: "thrown \<Rightarrow> string" where
  \<comment> \<open>\<open>`${error}`\<close>\<close>
  "text_of (ErrorObject name msg) =
     (if name = [] then msg else if msg = [] then name else name @ '': '' @ msg)"
| "text_of (NonError text) = text"

fun fs_error_text :: "fs_error \<Rightarrow> string" where
  "fs_error_text ENOENT = ''ENOENT: no such file or directory''"
| "fs_error_text ENOTDIR = ''ENOTDIR: not a directory''"
| "fs_error_text EISDIR = ''EISDIR: illegal operation on a directory''"
| "fs_error_text EEXIST = ''EEXIST: file already exists''"
| "fs_error_text EBUSY = ''EBUSY: resource busy or locked''"

definition fs_thrown :: "fs_error \<Rightarrow> string \<Rightarrow> string \<Rightarrow> thrown" where
  "fs_thrown e syscall p =
     ErrorObject ''Error'' (fs_error_text e @ '', '' @ syscall @ '' '' @ [CHR 0x27] @ p @ [CHR 0x27])"

datatype stream = Stdout | Stderr

text \<open>One subprocess started by \<open>spawnSync\<close>, with the file system as it found it.\<close>

record spawn =
  command :: string
  arguments :: "string list"
  cwd :: string
  found :: node

text \<open>
  The state a script runs in: the file system, the lines it has printed, the URLs it has
  requested and the subprocesses it has started.
\<close>

record world =
  fs :: node
  console :: "(stream \<times> string) list"
  requests :: "string list"
  spawns :: "spawn list"

text \<open>
  A response body is a stream: the bytes it delivers, and the error that ends it early
  if there is one.
\<close>

record body_stream =
  delivered :: string
  failure :: "thrown option"

record response =
  status :: nat
  statusText :: string
  body :: "body_stream option"

definition ok :: "response \<Rightarrow> bool" where
  \<comment> \<open>\<open>response.ok\<close> as the Fetch standard defines it\<close>
  "ok r = (200 \<le> status r \<and> status r \<le> 299)"

datatype fetch_result = Rejected thrown | Responded response

text \<open>
  How the writing side of a pipeline went (write, flush, close): the error of a failed
  write if there is one, and how many of the delivered bytes had reached the file when
  the pipeline failed.
\<close>

record write_report =
  fault :: "thrown option"
  flushed :: nat

text \<open>
  The collaborators outside the repository, taken as parameters: the built-in \<open>fetch\<close>,
  the disk under a write stream (for a target path and the body streamed into it), the
  zip library (\<open>new AdmZip(zip).extractAllTo(dir, overwrite)\<close>, which leaves a file
  system and may throw) and \<open>spawnSync\<close> (the exit status, \<open>null\<close> when the process
  could not be started or was killed, and the file system it leaves).
\<close>

record runtime =
  fetch :: "string \<Rightarrow> fetch_result"
  diskWrite :: "string \<Rightarrow> body_stream \<Rightarrow> write_report"
  extractAllTo :: "string \<Rightarrow> string \<Rightarrow> bool \<Rightarrow> node \<Rightarrow> thrown option \<times> node"
  spawnSync :: "string \<Rightarrow> string list \<Rightarrow> string \<Rightarrow> node \<Rightarrow> int option \<times> node"

text \<open>
  The directory layout of \<open>build-paths.mts\<close>, which is not among the sources: the value of
  \<open>getBuildPaths()\<close> is a parameter.
\<close>

record ResourceFiles =
  pythonEnvArchive :: string
  sevenZipExe :: string

record BuildPaths =
  repoRoot :: string
  buildDir :: string
  resourcesDir :: string
  pythonEnvDir :: string
  resourceFiles :: ResourceFiles

text \<open>
  \<open>console.log\<close> and \<open>console.error\<close>. The pictograph that starts most messages in the
  source is left out of the modelled text.
\<close>

definition log :: "string \<Rightarrow> world \<Rightarrow> world" where
  "log m w = w\<lparr>console := console w @ [(Stdout, m)]\<rparr>"

definition log_error :: "string \<Rightarrow> world \<Rightarrow> world" where
  "log_error m w = w\<lparr>console := console w @ [(Stderr, m)]\<rparr>"

text \<open>
  How a synchronous function ends: it returns, it throws, or it ends the process with
  \<open>process.exit(code)\<close>.
\<close>

datatype outcome = Returned world | Threw thrown world | Exited nat world

definition and_then :: "outcome \<Rightarrow> (world \<Rightarrow> outcome) \<Rightarrow> outcome" where
  \<comment> \<open>statement sequencing: the next statement runs only if this one returned\<close>
  "and_then r k = (case r of Returned w \<Rightarrow> k w | Threw e w \<Rightarrow> Threw e w | Exited c w \<Rightarrow> Exited c w)"

section \<open>fetch-python-package-resources.mts\<close>

record DownloadResult =
  url :: string
  filePath :: string
  success :: bool
  error :: "string option"

definition getBaseFileName :: "string \<Rightarrow> string" where
  "getBaseFileName u = (let urlPathSegments = split CHR ''/'' u in last urlPathSegments)"

definition downloadFile_catch :: "string \<Rightarrow> string \<Rightarrow> thrown \<Rightarrow> world \<Rightarrow> DownloadResult \<times> world" where
  \<comment> \<open>the \<open>catch\<close> block of \<open>downloadFile\<close>\<close>
  "downloadFile_catch u targetPath e w =
     (let errorMessage = message_of e
      in (\<lparr>url = u, filePath = targetPath, success = False, error = Some errorMessage\<rparr>,
          log_error (''Error downloading '' @ u @ '': '' @ errorMessage) w))"

text \<open>
  \<open>pipeline(response.body, createWriteStream(targetPath))\<close> opens the target (creating or
  truncating it) and writes what the body delivers. It fails with the error of the open,
  of a write, or of the body; after a failed write or body the file holds the bytes that
  had reached it. When it succeeds the file holds all that the body delivered.
\<close>

definition downloadFile :: "runtime \<Rightarrow> string \<Rightarrow> string \<Rightarrow> world \<Rightarrow> DownloadResult \<times> world" where
  "downloadFile rt u targetPath w =
     (let w1 = log (''Downloading '' @ u @ '' to '' @ targetPath) w;
          w2 = w1\<lparr>requests := requests w1 @ [u]\<rparr>
      in case fetch rt u of
           Rejected e \<Rightarrow> downloadFile_catch u targetPath e w2
         | Responded r \<Rightarrow>
             if \<not> ok r then
               downloadFile_catch u targetPath
                 (ErrorObject ''Error'' (''HTTP '' @ show_nat (status r) @ '': '' @ statusText r)) w2
             else
               (case body r of
                  None \<Rightarrow>
                    downloadFile_catch u targetPath (ErrorObject ''Error'' ''Response body is null'') w2
                | Some b \<Rightarrow>
                    (let report = diskWrite rt targetPath b;
                         broken = (case fault report of Some e \<Rightarrow> Some e | None \<Rightarrow> failure b);
                         content = (case broken of
                                      None \<Rightarrow> delivered b
                                    | Some e \<Rightarrow> take (flushed report) (delivered b))
                     in case writeFileSync targetPath content (fs w2) of
                          Inl e \<Rightarrow> downloadFile_catch u targetPath (fs_thrown e ''open'' targetPath) w2
                        | Inr fs' \<Rightarrow>
                            (case broken of
                               Some e \<Rightarrow> downloadFile_catch u targetPath e (w2\<lparr>fs := fs'\<rparr>)
                             | None \<Rightarrow>
                                 (\<lparr>url = u, filePath = targetPath, success = True, error = None\<rparr>,
                                  log (''Downloaded '' @ targetPath @ '' successfully!'')
                                    (w2\<lparr>fs := fs'\<rparr>))))))"


definition downloadFileIfNotPresent :: "runtime \<Rightarrow> BuildPaths \<Rightarrow> string \<Rightarrow> world \<Rightarrow> DownloadResult \<times> world" where
  "downloadFileIfNotPresent rt bp u w =
     (let fileName = getBaseFileName u;
          expectedFilePath = resourcesDir bp @ ''/'' @ fileName
      in if existsSync expectedFilePath (fs w) then
           (\<lparr>url = u, filePath = expectedFilePath, success = True, error = None\<rparr>,
            log (''Skipping '' @ u @ '' - '' @ expectedFilePath @ '' already exists'') w)
         else downloadFile rt u expectedFilePath w)"

definition main_fetch :: "BuildPaths \<Rightarrow> world \<Rightarrow> world" where
  \<comment> \<open>\<open>main\<close> of fetch-python-package-resources.mts\<close>
  "main_fetch bp w =
     (let w1 = log ''Starting Python package resources fetch...'' w;
          w2 = log (''Repository Root: '' @ repoRoot bp) w1;
          w3 = log (''Target directory: '' @ resourcesDir bp) w2
      in log ('' except we don'' @ [CHR 0x27] @ ''t need to do this'') w3)"

section \<open>prepare-python-env.mts\<close>

definition preparePythonEnvDir :: "BuildPaths \<Rightarrow> world \<Rightarrow> outcome" where
  "preparePythonEnvDir bp w =
     and_then
       (if existsSync (pythonEnvDir bp) (fs w) then
          (let w1 = log (''Removing existing Python environment: '' @ pythonEnvDir bp) w
           in case rmSync (pythonEnvDir bp) (fs w1) of
                Inl e \<Rightarrow> Threw (fs_thrown e ''rm'' (pythonEnvDir bp)) w1
              | Inr fs' \<Rightarrow> Returned (w1\<lparr>fs := fs'\<rparr>))
        else Returned w)
       (\<lambda>w2. case mkdirSync (pythonEnvDir bp) (fs w2) of
                Inl e \<Rightarrow> Threw (fs_thrown e ''mkdir'' (pythonEnvDir bp)) w2
              | Inr fs' \<Rightarrow>
                  Returned (log (''Created Python environment directory: '' @ pythonEnvDir bp)
                              (w2\<lparr>fs := fs'\<rparr>)))"

text \<open>
  The pattern \<open>/^python(\d+)\._pth$/\<close>: the result is the text of the group, or \<open>None\<close>
  where \<open>match\<close> gives \<open>null\<close>. The digits are matched greedily and the character after
  them must be the dot, so the group is the longest run of digits after the prefix.
\<close>

definition digit :: "char \<Rightarrow> bool" where
  "digit c = (c \<in> set ''0123456789'')"

definition pthFilePattern :: "string \<Rightarrow> string option" where
  "pthFilePattern file =
     (if take 6 file = ''python'' then
        (let rest = drop 6 file;
             ds = takeWhile digit rest;
             ext = dropWhile digit rest
         in if ds \<noteq> [] \<and> ext = ''._pth'' then Some ds else None)
      else None)"

text \<open>
  The \<open>for\<close> loop over the listing, with its \<open>break\<close>: the pair is
  \<open>(pythonVersion, pthFileName)\<close>, both \<open>null\<close> until a file matches.
\<close>

fun scan_files :: "string list \<Rightarrow> string option \<times> string option" where
  "scan_files [] = (None, None)"
| "scan_files (file # files) =
     (case pthFilePattern file of
        Some v \<Rightarrow> (Some v, Some file)
      | None \<Rightarrow> scan_files files)"

definition falsy :: "string option \<Rightarrow> bool" where
  \<comment> \<open>\<open>!x\<close> for \<open>x: string | null\<close>\<close>
  "falsy x = (x = None \<or> x = Some [])"

definition pthContent :: "string \<Rightarrow> string" where
  "pthContent pythonVersion =
     ''python'' @ pythonVersion @ ''.zip'' @ [newline] @
     ''.'' @ [newline] @
     [newline] @
     ''# Uncomment to run site.main() automatically'' @ [newline] @
     ''import site'' @ [newline]"

definition configurePaths_catch :: "thrown \<Rightarrow> world \<Rightarrow> outcome" where
  \<comment> \<open>the \<open>catch\<close> block of the second \<open>try\<close>\<close>
  "configurePaths_catch e w =
     Exited 1 (log_error (''Failed to configure Python paths: '' @ text_of e) w)"

definition createPythonEnvFromEmbeddableZip :: "runtime \<Rightarrow> BuildPaths \<Rightarrow> string \<Rightarrow> world \<Rightarrow> outcome" where
  "createPythonEnvFromEmbeddableZip rt bp pythonEmbedZipFile w =
     (let w1 = log ''Extracting embeddable Python...'' w
      in case extractAllTo rt pythonEmbedZipFile (pythonEnvDir bp) True (fs w1) of
           (Some e, fs1) \<Rightarrow>
             Exited 1 (log_error (''Failed to extract Python zip: '' @ text_of e) (w1\<lparr>fs := fs1\<rparr>))
         | (None, fs1) \<Rightarrow>
             (let w2 = log (''Extracted embeddable Python to: '' @ pythonEnvDir bp) (w1\<lparr>fs := fs1\<rparr>);
                  w3 = log ''Configuring Python environment paths...'' w2
              in case readdirSync (pythonEnvDir bp) (fs w3) of
                   Inl e \<Rightarrow> configurePaths_catch (fs_thrown e ''scandir'' (pythonEnvDir bp)) w3
                 | Inr files \<Rightarrow>
                     (let (pythonVersion, pthFileName) = scan_files files
                      in if falsy pythonVersion \<or> falsy pthFileName then
                           Exited 1
                             (log_error ''Could not find python*._pth file in the target directory'' w3)
                         else
                           (let w4 = log (''Found Python version: '' @ the pythonVersion @ '' ('' @
                                          the pthFileName @ '')'') w3;
                                pthFile = join (pythonEnvDir bp) (the pthFileName)
                            in case writeFileSync pthFile (pthContent (the pythonVersion)) (fs w4) of
                                 Inl e \<Rightarrow> configurePaths_catch (fs_thrown e ''open'' pthFile) w4
                               | Inr fs2 \<Rightarrow>
                                   Returned (log (''Configured Python paths in '' @ the pthFileName)
                                               (w4\<lparr>fs := fs2\<rparr>))))))"

definition compress_catch :: "thrown \<Rightarrow> world \<Rightarrow> outcome" where
  \<comment> \<open>the \<open>catch\<close> block of \<open>compressPythonEnvironment\<close>\<close>
  "compress_catch e w =
     Exited 1 (log_error (''Error compressing Python environment: '' @ text_of e) w)"

definition compressPythonEnvironment :: "runtime \<Rightarrow> BuildPaths \<Rightarrow> world \<Rightarrow> outcome" where
  "compressPythonEnvironment rt bp w =
     (let targetArchive = pythonEnvArchive (resourceFiles bp);
          w1 = log ''Compressing Python environment...'' w;
          w2 = log (''   Source: '' @ pythonEnvDir bp) w1;
          w3 = log (''   Target: '' @ targetArchive) w2
      in and_then
           (if existsSync targetArchive (fs w3) then
              (let w4 = log (''Removing existing archive: '' @ targetArchive) w3
               in case rmSync targetArchive (fs w4) of
                    Inl e \<Rightarrow> compress_catch (fs_thrown e ''rm'' targetArchive) w4
                  | Inr fs1 \<Rightarrow> Returned (w4\<lparr>fs := fs1\<rparr>))
            else Returned w3)
           (\<lambda>w5.
              let command = sevenZipExe (resourceFiles bp);
                  args = [''a'', targetArchive, join (pythonEnvDir bp) ''*''];
                  (result_status, fs2) = spawnSync rt command args (buildDir bp) (fs w5);
                  w6 = w5\<lparr>fs := fs2,
                          spawns := spawns w5 @
                            [\<lparr>command = command, arguments = args, cwd = buildDir bp, found = fs w5\<rparr>]\<rparr>
              in if result_status \<noteq> Some 0 then
                   Exited 1 (log_error ''Failed to compress Python environment'' w6)
                 else Returned (log (''Python environment compressed to: '' @ targetArchive) w6)))"

definition main_prepare :: "BuildPaths \<Rightarrow> world \<Rightarrow> world" where
  \<comment> \<open>\<open>main\<close> of prepare-python-env.mts\<close>
  "main_prepare bp w =
     (let w1 = log ''Starting Python environment preparation...'' w;
          w2 = log (''Repository Root: '' @ repoRoot bp) w1;
          w3 = log (''Target directory: '' @ pythonEnvDir bp) w2
      in log ('' This stuff doesn'' @ [CHR 0x27] @ ''t make sense on linux/docker'') w3)"

section \<open>The batch and the stage phase of the specification\<close>

text \<open>
  Modelled from the spec: the batch acquisition of section 4.1, "one acquire per
  configured URL", run in sequence. Neither script contains it: \<open>main\<close> of
  fetch-python-package-resources.mts calls no download function.
\<close>

fun acquireAll :: "runtime \<Rightarrow> BuildPaths \<Rightarrow> string list \<Rightarrow> world \<Rightarrow> DownloadResult list \<times> world" where
  "acquireAll rt bp [] w = ([], w)"
| "acquireAll rt bp (u # us) w =
     (let (r, w1) = downloadFileIfNotPresent rt bp u w;
          (rs, w2) = acquireAll rt bp us w1
      in (r # rs, w2))"

text \<open>
  Modelled from the spec: the stage phase of sections 2 and 5, directory reset, then
  extraction and path-config rewrite, then packaging. Neither script contains it:
  \<open>main\<close> of prepare-python-env.mts calls none of the three functions.
\<close>

definition stagePhase :: "runtime \<Rightarrow> BuildPaths \<Rightarrow> string \<Rightarrow> world \<Rightarrow> outcome" where
  "stagePhase rt bp pythonEmbedZipFile w =
     and_then
       (and_then (preparePythonEnvDir bp w) (createPythonEnvFromEmbeddableZip rt bp pythonEmbedZipFile))
       (compressPythonEnvironment rt bp)"

text \<open>The content of the file at a path, if there is a file.\<close>

definition readFile :: "string \<Rightarrow> node \<Rightarrow> string option" where
  "readFile p root = (case lookup (resolve p) root of Some (File d) \<Rightarrow> Some d | _ \<Rightarrow> None)"

text \<open>The text after the last \<open>/\<close> of a string, the whole string if it has none.\<close>

definition after_last_slash :: "string \<Rightarrow> string" where
  "after_last_slash s = rev (takeWhile (\<lambda>c. c \<noteq> CHR ''/'') (rev s))"

text \<open>The local \<open>expectedFilePath\<close> of \<open>downloadFileIfNotPresent\<close>.\<close>

definition expectedFilePath :: "BuildPaths \<Rightarrow> string \<Rightarrow> string" where
  "expectedFilePath bp u = resourcesDir bp @ ''/'' @ getBaseFileName u"

fun world_of :: "outcome \<Rightarrow> world" where
  "world_of (Returned w) = w"
| "world_of (Threw e w) = w"
| "world_of (Exited c w) = w"

section \<open>A sample layout, file system and runtime\<close>

definition example_paths :: BuildPaths where
  "example_paths =
     \<lparr>repoRoot = ''/repo'', buildDir = ''/repo/build'', resourcesDir = ''/repo/build/resources'',
      pythonEnvDir = ''/repo/build/python-env'',
      resourceFiles = \<lparr>pythonEnvArchive = ''/repo/build/resources/python-env.7z'',
                       sevenZipExe = ''/repo/build/resources/7zr.exe''\<rparr>\<rparr>"

definition example_fs :: node where
  "example_fs =
     Dir [(''repo'', Dir [(''build'',
       Dir [(''resources'', Dir [(''python-env.7z'', File ''stale archive'')]),
            (''python-env'', Dir [(''notes.txt'', File ''left over'')])])])]"

definition example_world :: world where
  "example_world = \<lparr>fs = example_fs, console = [], requests = [], spawns = []\<rparr>"

definition example_fetch :: "string \<Rightarrow> fetch_result" where
  "example_fetch u =
     (if u = ''https://example.org/dist/missing.zip'' then
        Responded \<lparr>status = 404, statusText = ''Not Found'', body = None\<rparr>
      else
        Responded \<lparr>status = 200, statusText = ''OK'',
                   body = Some \<lparr>delivered = ''PK'', failure = None\<rparr>\<rparr>)"

definition put :: "string \<Rightarrow> string \<Rightarrow> node \<Rightarrow> node" where
  "put p d root = (case writeFileSync p d root of Inl e \<Rightarrow> root | Inr root' \<Rightarrow> root')"

definition example_runtime :: runtime where
  "example_runtime =
     \<lparr>fetch = example_fetch,
      diskWrite = (\<lambda>p b. \<lparr>fault = None, flushed = length (delivered b)\<rparr>),
      extractAllTo = (\<lambda>zip dir overwrite root.
        (None, put (join dir ''python312._pth'') ''python312.zip'' (put (join dir ''python.exe'') ''MZ'' root))),
      spawnSync = (\<lambda>command args dir root. (Some 0, put (args ! 1) ''7z'' root))\<rparr>"

definition example_urls :: "string list" where
  "example_urls = [''https://example.org/dist/python-3.12.0-embed-amd64.zip'', ''https://example.org/dist/get-pip.py'']"

definition example_response_404 :: response where
  "example_response_404 = \<lparr>status = 404, statusText = ''Not Found'', body = None\<rparr>"

definition failing_compressor :: runtime where
  "failing_compressor = example_runtime\<lparr>spawnSync := (\<lambda>command args dir root. (Some 2, root))\<rparr>"

definition two_versions :: runtime where
  "two_versions =
     example_runtime\<lparr>extractAllTo := (\<lambda>zip dir overwrite root.
        (None, put (join dir ''python312._pth'') ''python312.zip''
                 (put (join dir ''python311._pth'') ''python311.zip''
                    (put (join dir ''python.exe'') ''MZ'' root))))\<rparr>"

definition no_version :: runtime where
  "no_version =
     example_runtime\<lparr>extractAllTo := (\<lambda>zip dir overwrite root.
        (None, put (join dir ''interpreter312._pth'') ''python312.zip''
                 (put (join dir ''python.exe'') ''MZ'' root)))\<rparr>"

definition example_zip :: string where
  "example_zip = ''/repo/build/resources/python-3.12.0-embed-amd64.zip''"

section \<open>Strings, paths and the file system: basic facts\<close>

lemma split_not_Nil: "split c s \<noteq> []"
  by (induction s) (auto split: list.splits)

lemma split_no_sep: "c \<notin> set s \<Longrightarrow> split c s = [s]"
  by (induction s) auto

lemma split_append_sep: "split c (a @ c # b) = split c a @ split c b"
proof (induction a)
  case Nil
  show ?case by simp
next
  case (Cons x a)
  show ?case
  proof (cases "x = c")
    case True
    with Cons show ?thesis by simp
  next
    case False
    obtain piece pieces where sp: "split c a = piece # pieces"
      using split_not_Nil [of c a] by (cases "split c a") auto
    with False Cons show ?thesis by simp
  qed
qed

lemma last_split: "last (split c s) = rev (takeWhile (\<lambda>x. x \<noteq> c) (rev s))"
proof (cases "c \<in> set s")
  case False
  then have tw: "takeWhile (\<lambda>x. x \<noteq> c) (rev s) = rev s"
    by (auto simp: takeWhile_eq_all_conv)
  show ?thesis unfolding tw using False by (simp add: split_no_sep)
next
  case True
  then obtain a b where s: "s = a @ c # b" and b: "c \<notin> set b"
    using split_list_last [of c s] by blast
  have "takeWhile (\<lambda>x. x \<noteq> c) (rev b @ c # rev a) = rev b"
    using b by (auto simp: takeWhile_tail takeWhile_eq_all_conv)
  with s b show ?thesis
    by (simp add: split_append_sep split_no_sep)
qed

lemma resolve_join: "resolve (join d n) = foldl resolve_step (resolve d) (split CHR ''/'' n)"
  by (simp add: resolve_def join_def split_append_sep)

lemma resolve_join_name:
  "CHR ''/'' \<notin> set n \<Longrightarrow> n \<noteq> [] \<Longrightarrow> n \<noteq> ''.'' \<Longrightarrow> n \<noteq> ''..'' \<Longrightarrow>
   resolve (join d n) = resolve d @ [n]"
  by (simp add: resolve_join split_no_sep resolve_step_def)

lemma lookup_File [simp]: "lookup q (File c) = (if q = [] then Some (File c) else None)"
  by (cases q) auto

lemma lookup_append:
  "lookup (p @ q) r = (case lookup p r of None \<Rightarrow> None | Some n \<Rightarrow> lookup q n)"
  by (induction p r rule: lookup.induct) (auto split: option.splits)

lemma lookup_remove_same: "p \<noteq> [] \<Longrightarrow> lookup p (remove p r) = None"
  by (induction p r rule: remove.induct) (auto simp: AList.update_conv' AList.delete_conv' split: option.splits)

lemma lookup_remove_other:
  "\<not> prefix p q \<Longrightarrow> \<not> prefix q p \<Longrightarrow> lookup q (remove p r) = lookup q r"
proof (induction p r arbitrary: q rule: remove.induct)
  case (1 n)
  then show ?case by simp
next
  case (2 s p c)
  then show ?case by simp
next
  case (3 s es)
  then show ?case
    by (cases q) (auto simp: AList.delete_conv' split: option.splits)
next
  case (4 s t p es)
  then show ?case
    by (cases q) (auto simp: AList.update_conv' split: option.splits)
qed

lemma mkdirp_fresh:
  "mkdirp p r = Inr r' \<Longrightarrow> lookup p r = None \<or> lookup p r = Some (Dir []) \<Longrightarrow>
   lookup p r' = Some (Dir [])"
proof (induction p r arbitrary: r' rule: mkdirp.induct)
  case (4 s p es)
  then show ?case
    by (cases p) (auto simp: AList.update_conv' split: option.splits sum.splits)
qed auto

lemma write_file_same: "write_file p d r = Inr r' \<Longrightarrow> lookup p r' = Some (File d)"
  by (induction p d r arbitrary: r' rule: write_file.induct)
     (auto simp: AList.update_conv' split: option.splits sum.splits node.splits)

lemma write_file_keeps:
  "write_file p d r = Inr r' \<Longrightarrow> lookup q r \<noteq> None \<Longrightarrow> lookup q r' \<noteq> None"
proof (induction p d r arbitrary: r' q rule: write_file.induct)
  case (3 s d es)
  then show ?case
    by (cases q) (auto simp: AList.update_conv' split: option.splits sum.splits node.splits if_splits)
next
  case (4 s t p d es)
  then show ?case
    by (cases q) (auto simp: AList.update_conv' split: option.splits sum.splits node.splits if_splits)
qed auto

lemma write_file_other:
  "write_file p d r = Inr r' \<Longrightarrow> \<not> prefix q p \<Longrightarrow> lookup q r' = lookup q r"
proof (induction p d r arbitrary: r' q rule: write_file.induct)
  case (3 s d es)
  then show ?case
    by (cases q) (auto simp: AList.update_conv' split: option.splits sum.splits node.splits if_splits)
next
  case (4 s t p d es)
  then show ?case
    by (cases q) (auto simp: AList.update_conv' split: option.splits sum.splits node.splits if_splits)
qed auto

lemma write_file_total:
  "lookup p r = Some (File c) \<Longrightarrow> p \<noteq> [] \<Longrightarrow> \<exists>r'. write_file p d r = Inr r'"
proof (induction p d r rule: write_file.induct)
  case (4 s t p d es)
  then show ?case
    by (auto split: option.splits sum.splits)
qed (auto split: option.splits node.splits)

lemma writeFileSync_Inr:
  "writeFileSync p d r = Inr r' \<Longrightarrow> \<not> names_directory p \<and> write_file (resolve p) d r = Inr r'"
  by (auto simp: writeFileSync_def split: if_splits sum.splits option.splits node.splits)

lemma readFile_writeFileSync:
  assumes "writeFileSync p d r = Inr r'"
  shows "readFile p r' = Some d"
proof -
  from assms have "write_file (resolve p) d r = Inr r'"
    by (simp add: writeFileSync_Inr)
  then show ?thesis
    by (simp add: readFile_def write_file_same)
qed

lemma writeFileSync_name:
  "\<not> names_directory p \<Longrightarrow> writeFileSync p d r = write_file (resolve p) d r"
  by (simp add: writeFileSync_def)

lemma names_directory_join:
  "CHR ''/'' \<notin> set n \<Longrightarrow> n \<noteq> [] \<Longrightarrow> n \<noteq> ''.'' \<Longrightarrow> n \<noteq> ''..'' \<Longrightarrow>
   \<not> names_directory (join d n)"
  by (simp add: names_directory_def join_def split_append_sep split_no_sep Let_def)

section \<open>The destination of an artifact\<close>

lemma downloadFile_fields:
  "url (fst (downloadFile rt u tp w)) = u \<and> filePath (fst (downloadFile rt u tp w)) = tp"
  by (simp add: downloadFile_def downloadFile_catch_def Let_def
           split: fetch_result.splits option.splits sum.splits)

text \<open>
  C8. The local name of an artifact is the last piece of its URL split at \<open>/\<close>, that is
  the text after the last \<open>/\<close> (the URL is that text behind a prefix that is empty or ends
  in \<open>/\<close>, and the text has no \<open>/\<close>), and the destination path of
  \<open>downloadFileIfNotPresent\<close> is the resources directory, a \<open>/\<close>, and that name.
\<close>

theorem destination_is_final_segment:
  "getBaseFileName u = after_last_slash u
   \<and> (\<exists>pre. u = pre @ getBaseFileName u \<and> (pre = [] \<or> last pre = CHR ''/''))
   \<and> CHR ''/'' \<notin> set (getBaseFileName u)
   \<and> filePath (fst (downloadFileIfNotPresent rt bp u w)) = resourcesDir bp @ ''/'' @ after_last_slash u"
proof -
  have eq: "getBaseFileName u = after_last_slash u"
    by (simp add: getBaseFileName_def after_last_slash_def last_split)
  have pre: "\<exists>pre. u = pre @ after_last_slash u \<and> (pre = [] \<or> last pre = CHR ''/'')"
  proof (cases "CHR ''/'' \<in> set u")
    case False
    then have tw: "takeWhile (\<lambda>c. c \<noteq> CHR ''/'') (rev u) = rev u"
      by (auto simp: takeWhile_eq_all_conv)
    have "after_last_slash u = u"
      unfolding after_last_slash_def tw by simp
    then show ?thesis by simp
  next
    case True
    then obtain a b where u: "u = a @ CHR ''/'' # b" and b: "CHR ''/'' \<notin> set b"
      using split_list_last [of "CHR ''/''" u] by blast
    have tw: "takeWhile (\<lambda>c. c \<noteq> CHR ''/'') (rev b @ CHR ''/'' # rev a) = rev b"
      using b by (auto simp: takeWhile_tail takeWhile_eq_all_conv)
    have "after_last_slash u = b"
      unfolding after_last_slash_def u rev_append rev.simps append_assoc append.simps tw by simp
    then have "u = (a @ ''/'') @ after_last_slash u \<and> last (a @ ''/'') = CHR ''/''"
      using u by simp
    then show ?thesis by blast
  qed
  have no_sep: "CHR ''/'' \<notin> set (after_last_slash u)"
    unfolding after_last_slash_def using set_takeWhileD [of "CHR ''/''" "\<lambda>c. c \<noteq> CHR ''/''" "rev u"]
    by auto
  have path: "filePath (fst (downloadFileIfNotPresent rt bp u w)) = resourcesDir bp @ ''/'' @ getBaseFileName u"
    by (simp add: downloadFileIfNotPresent_def Let_def downloadFile_fields)
  from eq pre no_sep path show ?thesis by simp
qed

section \<open>The resource cache\<close>

lemma fs_log [simp]: "fs (log m w) = fs w" "requests (log m w) = requests w" "spawns (log m w) = spawns w"
  by (simp_all add: log_def)

lemma fs_log_error [simp]: "fs (log_error m w) = fs w" "requests (log_error m w) = requests w"
  "spawns (log_error m w) = spawns w"
  by (simp_all add: log_error_def)

lemma downloadFileIfNotPresent_hit:
  "existsSync (expectedFilePath bp u) (fs w) \<Longrightarrow>
   downloadFileIfNotPresent rt bp u w =
     (\<lparr>url = u, filePath = expectedFilePath bp u, success = True, error = None\<rparr>,
      log (''Skipping '' @ u @ '' - '' @ expectedFilePath bp u @ '' already exists'') w)"
  by (simp add: downloadFileIfNotPresent_def expectedFilePath_def Let_def)

lemma downloadFile_writes:
  "fs (snd (downloadFile rt u tp w)) = fs w
   \<or> (\<exists>d. writeFileSync tp d (fs w) = Inr (fs (snd (downloadFile rt u tp w))))"
  by (auto simp: downloadFile_def downloadFile_catch_def Let_def
           split: fetch_result.splits option.splits sum.splits)

lemma downloadFile_success_writes:
  "success (fst (downloadFile rt u tp w)) \<Longrightarrow>
   \<exists>d. writeFileSync tp d (fs w) = Inr (fs (snd (downloadFile rt u tp w)))"
  by (auto simp: downloadFile_def downloadFile_catch_def Let_def
           split: fetch_result.splits option.splits sum.splits if_splits)

lemma downloadFile_success_exists:
  assumes "success (fst (downloadFile rt u tp w))"
  shows "existsSync tp (fs (snd (downloadFile rt u tp w)))"
proof -
  from downloadFile_success_writes [OF assms] obtain d where
    "writeFileSync tp d (fs w) = Inr (fs (snd (downloadFile rt u tp w)))"
    by blast
  then have "write_file (resolve tp) d (fs w) = Inr (fs (snd (downloadFile rt u tp w)))"
    by (simp add: writeFileSync_Inr)
  then show ?thesis
    by (simp add: existsSync_def write_file_same)
qed

lemma downloadFile_keeps:
  assumes "existsSync q (fs w)"
  shows "existsSync q (fs (snd (downloadFile rt u tp w)))"
proof -
  from downloadFile_writes [of rt u tp w] show ?thesis
  proof
    assume "fs (snd (downloadFile rt u tp w)) = fs w"
    with assms show ?thesis by simp
  next
    assume "\<exists>d. writeFileSync tp d (fs w) = Inr (fs (snd (downloadFile rt u tp w)))"
    then obtain d where "write_file (resolve tp) d (fs w) = Inr (fs (snd (downloadFile rt u tp w)))"
      using writeFileSync_Inr by blast
    from write_file_keeps [OF this, of "resolve q"] assms show ?thesis
      by (simp add: existsSync_def)
  qed
qed

lemma downloadFileIfNotPresent_success_exists:
  "success (fst (downloadFileIfNotPresent rt bp u w)) \<Longrightarrow>
   existsSync (expectedFilePath bp u) (fs (snd (downloadFileIfNotPresent rt bp u w)))"
  using downloadFile_success_exists [of rt u "expectedFilePath bp u" w]
  by (auto simp: downloadFileIfNotPresent_def expectedFilePath_def Let_def)

lemma downloadFileIfNotPresent_keeps:
  "existsSync q (fs w) \<Longrightarrow> existsSync q (fs (snd (downloadFileIfNotPresent rt bp u w)))"
  using downloadFile_keeps [of q w rt u "expectedFilePath bp u"]
  by (auto simp: downloadFileIfNotPresent_def expectedFilePath_def Let_def)

lemma acquireAll_keeps:
  "existsSync q (fs w) \<Longrightarrow> existsSync q (fs (snd (acquireAll rt bp us w)))"
proof (induction us arbitrary: w)
  case Nil
  then show ?case by simp
next
  case (Cons u us)
  from Cons.prems have "existsSync q (fs (snd (downloadFileIfNotPresent rt bp u w)))"
    by (rule downloadFileIfNotPresent_keeps)
  from Cons.IH [OF this] show ?case
    by (simp add: split_beta)
qed

lemma acquireAll_success_exists:
  "list_all success (fst (acquireAll rt bp us w)) \<Longrightarrow>
   list_all (\<lambda>u. existsSync (expectedFilePath bp u) (fs (snd (acquireAll rt bp us w)))) us"
proof (induction us arbitrary: w)
  case Nil
  then show ?case by simp
next
  case (Cons u us)
  let ?w1 = "snd (downloadFileIfNotPresent rt bp u w)"
  from Cons.prems have s: "success (fst (downloadFileIfNotPresent rt bp u w))"
    and rest: "list_all success (fst (acquireAll rt bp us ?w1))"
    by (simp_all add: split_beta)
  from s have "existsSync (expectedFilePath bp u) (fs ?w1)"
    by (rule downloadFileIfNotPresent_success_exists)
  then have "existsSync (expectedFilePath bp u) (fs (snd (acquireAll rt bp us ?w1)))"
    by (rule acquireAll_keeps)
  with Cons.IH [OF rest] show ?case
    by (simp add: split_beta)
qed

lemma downloadFileIfNotPresent_hit_fields:
  assumes "existsSync (expectedFilePath bp u) (fs w)"
  shows "fst (downloadFileIfNotPresent rt bp u w) =
           \<lparr>url = u, filePath = expectedFilePath bp u, success = True, error = None\<rparr>"
    and "requests (snd (downloadFileIfNotPresent rt bp u w)) = requests w"
    and "fs (snd (downloadFileIfNotPresent rt bp u w)) = fs w"
  by (simp_all add: downloadFileIfNotPresent_hit [OF assms])

lemma acquireAll_all_hits:
  "list_all (\<lambda>u. existsSync (expectedFilePath bp u) (fs w)) us \<Longrightarrow>
   fst (acquireAll rt bp us w) =
     map (\<lambda>u. \<lparr>url = u, filePath = expectedFilePath bp u, success = True, error = None\<rparr>) us
   \<and> requests (snd (acquireAll rt bp us w)) = requests w
   \<and> fs (snd (acquireAll rt bp us w)) = fs w"
proof (induction us arbitrary: w)
  case Nil
  then show ?case by simp
next
  case (Cons u us)
  let ?w1 = "snd (downloadFileIfNotPresent rt bp u w)"
  from Cons.prems have hit: "existsSync (expectedFilePath bp u) (fs w)"
    by simp
  note step = downloadFileIfNotPresent_hit_fields [OF hit, of rt]
  from Cons.prems have rest: "list_all (\<lambda>u. existsSync (expectedFilePath bp u) (fs ?w1)) us"
    by (simp add: step)
  from Cons.IH [OF rest] show ?case
    by (simp add: split_beta step)
qed

text \<open>
  C1. When the destination of a URL exists, \<open>downloadFileIfNotPresent\<close> reports success
  for it, requests nothing and leaves the file system as it is. Hence after a batch in
  which every artifact succeeded, a second batch over the same URLs, whatever the network
  then does, reports every artifact as a success and requests nothing.
\<close>

theorem cache_hit_skips_network:
  "(existsSync (expectedFilePath bp u) (fs w) \<longrightarrow>
      fst (downloadFileIfNotPresent rt bp u w) =
        \<lparr>url = u, filePath = expectedFilePath bp u, success = True, error = None\<rparr>
      \<and> requests (snd (downloadFileIfNotPresent rt bp u w)) = requests w
      \<and> fs (snd (downloadFileIfNotPresent rt bp u w)) = fs w)
   \<and> (list_all success (fst (acquireAll rt bp us w)) \<longrightarrow>
        list_all success (fst (acquireAll rt' bp us (snd (acquireAll rt bp us w))))
        \<and> length (fst (acquireAll rt' bp us (snd (acquireAll rt bp us w)))) = length us
        \<and> requests (snd (acquireAll rt' bp us (snd (acquireAll rt bp us w))))
            = requests (snd (acquireAll rt bp us w)))"
proof (intro conjI impI)
  assume hit: "existsSync (expectedFilePath bp u) (fs w)"
  show "fst (downloadFileIfNotPresent rt bp u w) =
        \<lparr>url = u, filePath = expectedFilePath bp u, success = True, error = None\<rparr>"
    and "requests (snd (downloadFileIfNotPresent rt bp u w)) = requests w"
    and "fs (snd (downloadFileIfNotPresent rt bp u w)) = fs w"
    by (rule downloadFileIfNotPresent_hit_fields [OF hit])+
next
  assume first: "list_all success (fst (acquireAll rt bp us w))"
  let ?w1 = "snd (acquireAll rt bp us w)"
  from acquireAll_all_hits [OF acquireAll_success_exists [OF first], of rt']
  have second: "fst (acquireAll rt' bp us ?w1) =
      map (\<lambda>u. \<lparr>url = u, filePath = expectedFilePath bp u, success = True, error = None\<rparr>) us"
    and reqs: "requests (snd (acquireAll rt' bp us ?w1)) = requests ?w1"
    by simp_all
  show "list_all success (fst (acquireAll rt' bp us ?w1))"
    unfolding second by (simp add: list_all_iff)
  show "length (fst (acquireAll rt' bp us ?w1)) = length us"
    unfolding second by simp
  show "requests (snd (acquireAll rt' bp us ?w1)) = requests ?w1"
    by (rule reqs)
qed


theorem cache_hit_skips_network_witness:
  "existsSync (expectedFilePath example_paths ''https://example.org/dist/get-pip.py'')
     (fs (snd (acquireAll example_runtime example_paths example_urls example_world)))
   \<and> success (fst (downloadFileIfNotPresent example_runtime example_paths ''https://example.org/dist/get-pip.py''
        (snd (acquireAll example_runtime example_paths example_urls example_world))))
   \<and> requests (snd (downloadFileIfNotPresent example_runtime example_paths ''https://example.org/dist/get-pip.py''
        (snd (acquireAll example_runtime example_paths example_urls example_world))))
       = example_urls
   \<and> list_all success (fst (acquireAll example_runtime example_paths example_urls example_world))
   \<and> list_all success (fst (acquireAll example_runtime example_paths example_urls
        (snd (acquireAll example_runtime example_paths example_urls example_world))))
   \<and> requests (snd (acquireAll example_runtime example_paths example_urls
        (snd (acquireAll example_runtime example_paths example_urls example_world))))
       = example_urls"
proof -
  let ?w1 = "snd (acquireAll example_runtime example_paths example_urls example_world)"
  have hit: "existsSync (expectedFilePath example_paths ''https://example.org/dist/get-pip.py'') (fs ?w1)"
    by code_simp
  have first: "list_all success (fst (acquireAll example_runtime example_paths example_urls example_world))"
    by code_simp
  have reqs: "requests ?w1 = example_urls"
    by code_simp
  note a = cache_hit_skips_network [where bp = example_paths and rt = example_runtime
      and u = "''https://example.org/dist/get-pip.py''" and w = ?w1]
  note b = cache_hit_skips_network [where bp = example_paths and rt = example_runtime
      and rt' = example_runtime and us = example_urls and w = example_world]
  from a b hit first reqs show ?thesis
    by simp
qed

section \<open>Failed downloads\<close>

lemma downloadFile_http_error:
  assumes "fetch rt u = Responded r" and "\<not> ok r"
  shows "fst (downloadFile rt u tp w) =
           \<lparr>url = u, filePath = tp, success = False,
            error = Some (''HTTP '' @ show_nat (status r) @ '': '' @ statusText r)\<rparr>"
    and "fs (snd (downloadFile rt u tp w)) = fs w"
  using assms by (simp_all add: downloadFile_def downloadFile_catch_def Let_def del: append.simps)

lemma downloadFileIfNotPresent_fs_only:
  "fs w = fs w' \<Longrightarrow>
   fst (downloadFileIfNotPresent rt bp u w) = fst (downloadFileIfNotPresent rt bp u w')
   \<and> fs (snd (downloadFileIfNotPresent rt bp u w)) = fs (snd (downloadFileIfNotPresent rt bp u w'))"
  by (simp add: downloadFileIfNotPresent_def downloadFile_def downloadFile_catch_def Let_def
           split: fetch_result.splits option.splits sum.splits)

lemma acquireAll_fs_only:
  "fs w = fs w' \<Longrightarrow>
   fst (acquireAll rt bp us w) = fst (acquireAll rt bp us w')
   \<and> fs (snd (acquireAll rt bp us w)) = fs (snd (acquireAll rt bp us w'))"
proof (induction us arbitrary: w w')
  case Nil
  then show ?case by simp
next
  case (Cons u us)
  note step = downloadFileIfNotPresent_fs_only [OF Cons.prems, of rt bp u]
  from step Cons.IH [of "snd (downloadFileIfNotPresent rt bp u w)" "snd (downloadFileIfNotPresent rt bp u w')"]
  show ?case
    by (simp add: split_beta)
qed

lemma acquireAll_append:
  "acquireAll rt bp (xs @ ys) w =
     (fst (acquireAll rt bp xs w) @ fst (acquireAll rt bp ys (snd (acquireAll rt bp xs w))),
      snd (acquireAll rt bp ys (snd (acquireAll rt bp xs w))))"
  by (induction xs arbitrary: w) (simp_all add: split_beta)

lemma length_acquireAll: "length (fst (acquireAll rt bp us w)) = length us"
  by (induction us arbitrary: w) (simp_all add: split_beta)

text \<open>
  C6. A request answered with a status outside 200..299 makes \<open>downloadFile\<close> return
  \<open>success = false\<close> with the error text \<open>HTTP <status>: <statusText>\<close>, and it leaves
  the file system untouched. In a batch the failure is one record among the others: with
  the failing URL put at any position (its destination not yet there when its turn comes,
  so that the request is made), the batch returns the records of the batch without it,
  the failure record inserted at that position, and ends on the same file system.
\<close>

theorem http_failure_is_isolated:
  assumes "fetch rt u = Responded r" and "\<not> ok r"
  shows "fst (downloadFile rt u tp w) =
           \<lparr>url = u, filePath = tp, success = False,
            error = Some (''HTTP '' @ show_nat (status r) @ '': '' @ statusText r)\<rparr>
         \<and> fs (snd (downloadFile rt u tp w)) = fs w
         \<and> (\<not> existsSync (expectedFilePath bp u) (fs (snd (acquireAll rt bp xs w0))) \<longrightarrow>
              fst (acquireAll rt bp (xs @ u # ys) w0) =
                take (length xs) (fst (acquireAll rt bp (xs @ ys) w0)) @
                [\<lparr>url = u, filePath = expectedFilePath bp u, success = False,
                  error = Some (''HTTP '' @ show_nat (status r) @ '': '' @ statusText r)\<rparr>] @
                drop (length xs) (fst (acquireAll rt bp (xs @ ys) w0))
              \<and> fs (snd (acquireAll rt bp (xs @ u # ys) w0)) = fs (snd (acquireAll rt bp (xs @ ys) w0)))"
proof (intro conjI impI)
  show "fst (downloadFile rt u tp w) =
           \<lparr>url = u, filePath = tp, success = False,
            error = Some (''HTTP '' @ show_nat (status r) @ '': '' @ statusText r)\<rparr>"
    by (rule downloadFile_http_error [OF assms])
  show "fs (snd (downloadFile rt u tp w)) = fs w"
    by (rule downloadFile_http_error [OF assms])
next
  let ?w1 = "snd (acquireAll rt bp xs w0)"
  let ?w2 = "snd (downloadFileIfNotPresent rt bp u ?w1)"
  let ?fail = "\<lparr>url = u, filePath = expectedFilePath bp u, success = False,
                  error = Some (''HTTP '' @ show_nat (status r) @ '': '' @ statusText r)\<rparr>"
  assume miss: "\<not> existsSync (expectedFilePath bp u) (fs ?w1)"
  then have dl: "downloadFileIfNotPresent rt bp u ?w1 = downloadFile rt u (expectedFilePath bp u) ?w1"
    by (simp add: downloadFileIfNotPresent_def expectedFilePath_def Let_def)
  have r: "fst (downloadFileIfNotPresent rt bp u ?w1) = ?fail"
    and f: "fs ?w2 = fs ?w1"
    unfolding dl by (rule downloadFile_http_error [OF assms])+
  note same = acquireAll_fs_only [OF f, of rt bp ys]
  have with_u: "acquireAll rt bp (xs @ u # ys) w0 =
      (fst (acquireAll rt bp xs w0) @ ?fail # fst (acquireAll rt bp ys ?w2),
       snd (acquireAll rt bp ys ?w2))"
    by (simp add: acquireAll_append [of rt bp xs "u # ys"] split_beta r)
  have without: "acquireAll rt bp (xs @ ys) w0 =
      (fst (acquireAll rt bp xs w0) @ fst (acquireAll rt bp ys ?w1), snd (acquireAll rt bp ys ?w1))"
    by (rule acquireAll_append)
  show "fst (acquireAll rt bp (xs @ u # ys) w0) =
          take (length xs) (fst (acquireAll rt bp (xs @ ys) w0)) @ [?fail] @
          drop (length xs) (fst (acquireAll rt bp (xs @ ys) w0))"
    unfolding with_u without using same by (simp add: length_acquireAll)
  show "fs (snd (acquireAll rt bp (xs @ u # ys) w0)) = fs (snd (acquireAll rt bp (xs @ ys) w0))"
    unfolding with_u without using same by simp
qed


theorem http_failure_is_isolated_witness:
  "fetch example_runtime ''https://example.org/dist/missing.zip'' = Responded example_response_404
   \<and> \<not> ok example_response_404
   \<and> \<not> existsSync (expectedFilePath example_paths ''https://example.org/dist/missing.zip'')
         (fs (snd (acquireAll example_runtime example_paths [''https://example.org/dist/get-pip.py''] example_world)))
   \<and> fst (downloadFile example_runtime ''https://example.org/dist/missing.zip'' ''/repo/build/resources/missing.zip''
          example_world) =
        \<lparr>url = ''https://example.org/dist/missing.zip'', filePath = ''/repo/build/resources/missing.zip'',
         success = False, error = Some ''HTTP 404: Not Found''\<rparr>
   \<and> map success (fst (acquireAll example_runtime example_paths
          ([''https://example.org/dist/get-pip.py''] @ ''https://example.org/dist/missing.zip'' #
           [''https://example.org/dist/python-3.12.0-embed-amd64.zip'']) example_world))
       = [True, False, True]
   \<and> fs (snd (acquireAll example_runtime example_paths
          ([''https://example.org/dist/get-pip.py''] @ ''https://example.org/dist/missing.zip'' #
           [''https://example.org/dist/python-3.12.0-embed-amd64.zip'']) example_world))
       = fs (snd (acquireAll example_runtime example_paths
          ([''https://example.org/dist/get-pip.py''] @
           [''https://example.org/dist/python-3.12.0-embed-amd64.zip'']) example_world))"
proof -
  have h1: "fetch example_runtime ''https://example.org/dist/missing.zip'' = Responded example_response_404"
    by code_simp
  have h2: "\<not> ok example_response_404"
    by code_simp
  have h3: "\<not> existsSync (expectedFilePath example_paths ''https://example.org/dist/missing.zip'')
         (fs (snd (acquireAll example_runtime example_paths [''https://example.org/dist/get-pip.py''] example_world)))"
    by code_simp
  have others: "map success (fst (acquireAll example_runtime example_paths
          ([''https://example.org/dist/get-pip.py''] @
           [''https://example.org/dist/python-3.12.0-embed-amd64.zip'']) example_world)) = [True, True]"
    by code_simp
  have msg: "''HTTP '' @ show_nat (status example_response_404) @ '': '' @ statusText example_response_404
      = ''HTTP 404: Not Found''"
    by code_simp
  have path: "expectedFilePath example_paths ''https://example.org/dist/missing.zip''
      = ''/repo/build/resources/missing.zip''"
    by code_simp
  note t = http_failure_is_isolated [OF h1 h2, where tp = "''/repo/build/resources/missing.zip''"
      and w = example_world and bp = example_paths and xs = "[''https://example.org/dist/get-pip.py'']"
      and ys = "[''https://example.org/dist/python-3.12.0-embed-amd64.zip'']" and ?w0.0 = example_world,
      unfolded msg]
  from t h3 have batch: "fst (acquireAll example_runtime example_paths
          ([''https://example.org/dist/get-pip.py''] @ ''https://example.org/dist/missing.zip'' #
           [''https://example.org/dist/python-3.12.0-embed-amd64.zip'']) example_world) =
      take (length [''https://example.org/dist/get-pip.py''])
        (fst (acquireAll example_runtime example_paths
          ([''https://example.org/dist/get-pip.py''] @
           [''https://example.org/dist/python-3.12.0-embed-amd64.zip'']) example_world)) @
      [\<lparr>url = ''https://example.org/dist/missing.zip'',
        filePath = expectedFilePath example_paths ''https://example.org/dist/missing.zip'',
        success = False, error = Some ''HTTP 404: Not Found''\<rparr>] @
      drop (length [''https://example.org/dist/get-pip.py''])
        (fst (acquireAll example_runtime example_paths
          ([''https://example.org/dist/get-pip.py''] @
           [''https://example.org/dist/python-3.12.0-embed-amd64.zip'']) example_world))"
    by blast
  have flags: "map success (fst (acquireAll example_runtime example_paths
          ([''https://example.org/dist/get-pip.py''] @ ''https://example.org/dist/missing.zip'' #
           [''https://example.org/dist/python-3.12.0-embed-amd64.zip'']) example_world))
       = [True, False, True]"
    unfolding batch using others
    by (simp add: take_map [symmetric] drop_map [symmetric] del: take_map drop_map)
  from t h1 h2 h3 flags show ?thesis
    by blast
qed



section \<open>The version-bearing file name\<close>

lemma digit_not_special: "digit c \<Longrightarrow> c \<noteq> CHR ''/'' \<and> c \<noteq> CHR ''.''"
  by (auto simp: digit_def)

lemma pthFilePattern_iff:
  "pthFilePattern file = Some v \<longleftrightarrow>
     v \<noteq> [] \<and> list_all digit v \<and> file = ''python'' @ v @ ''._pth''"
proof
  assume m: "pthFilePattern file = Some v"
  then have pre: "take 6 file = ''python''"
    and v: "v = takeWhile digit (drop 6 file)"
    and ne: "v \<noteq> []"
    and ext: "dropWhile digit (drop 6 file) = ''._pth''"
    by (auto simp: pthFilePattern_def Let_def split: if_splits)
  have "file = take 6 file @ takeWhile digit (drop 6 file) @ dropWhile digit (drop 6 file)"
    by simp
  then have "file = ''python'' @ v @ ''._pth''"
    unfolding pre ext v [symmetric] .
  moreover have "list_all digit v"
    unfolding v list_all_iff using set_takeWhileD by fast
  ultimately show "v \<noteq> [] \<and> list_all digit v \<and> file = ''python'' @ v @ ''._pth''"
    using ne by blast
next
  assume a: "v \<noteq> [] \<and> list_all digit v \<and> file = ''python'' @ v @ ''._pth''"
  then have d: "\<forall>c\<in>set v. digit c"
    by (simp add: list_all_iff)
  have nd: "\<not> digit CHR ''.''"
    by (simp add: digit_def)
  have tw: "takeWhile digit (v @ ''._pth'') = v"
    using d nd by (simp add: takeWhile_append2)
  have dw: "dropWhile digit (v @ ''._pth'') = ''._pth''"
    using d nd by (simp add: dropWhile_append2)
  from a have shape: "file = ''python'' @ v @ ''._pth''"
    by simp
  show "pthFilePattern file = Some v"
    unfolding pthFilePattern_def shape using a tw dw by (simp add: Let_def)
qed

lemma pth_name_simple:
  assumes "pthFilePattern f = Some v"
  shows "CHR ''/'' \<notin> set f \<and> f \<noteq> [] \<and> f \<noteq> ''.'' \<and> f \<noteq> ''..''"
proof -
  from assms have f: "f = ''python'' @ v @ ''._pth''" and d: "\<forall>c\<in>set v. digit c"
    by (simp_all add: pthFilePattern_iff list_all_iff)
  from d have "CHR ''/'' \<notin> set v"
    using digit_not_special by blast
  then show ?thesis
    unfolding f by simp
qed

lemma scan_files_none:
  "\<forall>f\<in>set files. pthFilePattern f = None \<Longrightarrow> scan_files files = (None, None)"
  by (induction files) simp_all

lemma scan_files_first:
  "\<forall>g\<in>set pre. pthFilePattern g = None \<Longrightarrow> pthFilePattern f = Some v \<Longrightarrow>
   scan_files (pre @ f # post) = (Some v, Some f)"
  by (induction pre) simp_all

lemma scan_files_found:
  "scan_files files = (Some v, b) \<Longrightarrow>
   \<exists>f pre post. b = Some f \<and> files = pre @ f # post \<and> (\<forall>g\<in>set pre. pthFilePattern g = None)
     \<and> pthFilePattern f = Some v"
proof (induction files)
  case Nil
  then show ?case by simp
next
  case (Cons x files)
  show ?case
  proof (cases "pthFilePattern x")
    case None
    with Cons.prems have "scan_files files = (Some v, b)"
      by simp
    from Cons.IH [OF this] obtain f pre post where
      "b = Some f" "files = pre @ f # post" "\<forall>g\<in>set pre. pthFilePattern g = None"
      "pthFilePattern f = Some v"
      by blast
    with None have "b = Some f \<and> x # files = (x # pre) @ f # post
        \<and> (\<forall>g\<in>set (x # pre). pthFilePattern g = None) \<and> pthFilePattern f = Some v"
      by simp
    then show ?thesis by blast
  next
    case (Some u)
    with Cons.prems have "b = Some x \<and> x # files = [] @ x # files
        \<and> (\<forall>g\<in>set []. pthFilePattern g = None) \<and> pthFilePattern x = Some v"
      by simp
    then show ?thesis by blast
  qed
qed

section \<open>Resetting the staging directory\<close>

lemma preparePythonEnvDir_fresh:
  assumes "preparePythonEnvDir bp w = Returned w'"
  shows "lookup (resolve (pythonEnvDir bp)) (fs w') = Some (Dir [])"
    and "spawns w' = spawns w" and "requests w' = requests w"
proof -
  let ?d = "pythonEnvDir bp"
  show "lookup (resolve ?d) (fs w') = Some (Dir [])"
  proof (cases "existsSync ?d (fs w)")
    case True
    with assms obtain fs1 where rm: "rmSync ?d (fs w) = Inr fs1"
      and mk: "mkdirSync ?d fs1 = Inr (fs w')"
      by (auto simp: preparePythonEnvDir_def and_then_def Let_def split: sum.splits)
    from rm have "lookup (resolve ?d) fs1 = None"
      by (auto simp: rmSync_def Let_def lookup_remove_same split: if_splits)
    with mk show ?thesis
      by (simp add: mkdirSync_def mkdirp_fresh)
  next
    case False
    with assms have mk: "mkdirSync ?d (fs w) = Inr (fs w')"
      by (auto simp: preparePythonEnvDir_def and_then_def Let_def split: sum.splits)
    from False have "lookup (resolve ?d) (fs w) = None"
      by (simp add: existsSync_def)
    with mk show ?thesis
      by (simp add: mkdirSync_def mkdirp_fresh)
  qed
  from assms show "spawns w' = spawns w" and "requests w' = requests w"
    by (auto simp: preparePythonEnvDir_def and_then_def Let_def split: sum.splits if_splits)
qed


lemma mkdirp_after_remove:
  "lookup q r \<noteq> None \<Longrightarrow> q \<noteq> [] \<Longrightarrow> \<exists>r'. mkdirp q (remove q r) = Inr r'"
proof (induction q r rule: remove.induct)
  case (3 s es)
  then show ?case
    by (simp add: AList.delete_conv')
next
  case (4 s t p es)
  then show ?case
    by (auto simp: AList.update_conv' split: option.splits)
qed auto

lemma preparePythonEnvDir_completes:
  assumes "resolve (pythonEnvDir bp) \<noteq> []" and "existsSync (pythonEnvDir bp) (fs w)"
  shows "\<exists>w'. preparePythonEnvDir bp w = Returned w'"
proof -
  from assms have "lookup (resolve (pythonEnvDir bp)) (fs w) \<noteq> None"
    by (simp add: existsSync_def)
  from mkdirp_after_remove [OF this assms(1)] obtain r' where
    "mkdirp (resolve (pythonEnvDir bp)) (remove (resolve (pythonEnvDir bp)) (fs w)) = Inr r'"
    by blast
  with assms show ?thesis
    by (simp add: preparePythonEnvDir_def and_then_def Let_def rmSync_def mkdirSync_def existsSync_def)
qed

text \<open>
  C4. When \<open>preparePythonEnvDir\<close> returns, whatever the file system was before, the
  staging directory exists and is empty: its listing is empty, nothing exists below it,
  and no name that was in it names anything any more. It does return whenever the staging
  directory existed (and is not the root of the file system).
\<close>

theorem reset_leaves_empty_directory:
  "(resolve (pythonEnvDir bp) \<noteq> [] \<and> existsSync (pythonEnvDir bp) (fs w) \<longrightarrow>
      (\<exists>w'. preparePythonEnvDir bp w = Returned w'))
   \<and> (preparePythonEnvDir bp w = Returned w' \<longrightarrow>
        existsSync (pythonEnvDir bp) (fs w')
        \<and> readdirSync (pythonEnvDir bp) (fs w') = Inr []
        \<and> (\<forall>q. q \<noteq> [] \<longrightarrow> lookup (resolve (pythonEnvDir bp) @ q) (fs w') = None)
        \<and> (\<forall>name. CHR ''/'' \<notin> set name \<and> name \<noteq> [] \<and> name \<noteq> ''.'' \<and> name \<noteq> ''..'' \<longrightarrow>
              \<not> existsSync (join (pythonEnvDir bp) name) (fs w')))"
proof (intro conjI impI)
  assume "resolve (pythonEnvDir bp) \<noteq> [] \<and> existsSync (pythonEnvDir bp) (fs w)"
  then show "\<exists>w'. preparePythonEnvDir bp w = Returned w'"
    using preparePythonEnvDir_completes by blast
next
  assume ret: "preparePythonEnvDir bp w = Returned w'"
  note fresh = preparePythonEnvDir_fresh(1) [OF ret]
  have below: "lookup (resolve (pythonEnvDir bp) @ q) (fs w') = None" if "q \<noteq> []" for q
    using that fresh by (cases q) (simp_all add: lookup_append)
  have names: "\<not> existsSync (join (pythonEnvDir bp) name) (fs w')"
    if "CHR ''/'' \<notin> set name \<and> name \<noteq> [] \<and> name \<noteq> ''.'' \<and> name \<noteq> ''..''" for name
    using that below [of "[name]"] by (simp add: existsSync_def resolve_join_name)
  show "existsSync (pythonEnvDir bp) (fs w')"
    using fresh by (simp add: existsSync_def)
  show "readdirSync (pythonEnvDir bp) (fs w') = Inr []"
    using fresh by (simp add: readdirSync_def listing_def)
  show "\<forall>q. q \<noteq> [] \<longrightarrow> lookup (resolve (pythonEnvDir bp) @ q) (fs w') = None"
    using below by blast
  show "\<forall>name. CHR ''/'' \<notin> set name \<and> name \<noteq> [] \<and> name \<noteq> ''.'' \<and> name \<noteq> ''..'' \<longrightarrow>
              \<not> existsSync (join (pythonEnvDir bp) name) (fs w')"
    using names by blast
qed

theorem reset_leaves_empty_directory_witness:
  "resolve (pythonEnvDir example_paths) \<noteq> []
   \<and> existsSync (pythonEnvDir example_paths) (fs example_world)
   \<and> existsSync (join (pythonEnvDir example_paths) ''notes.txt'') (fs example_world)
   \<and> preparePythonEnvDir example_paths example_world
        = Returned (world_of (preparePythonEnvDir example_paths example_world))
   \<and> readdirSync (pythonEnvDir example_paths)
        (fs (world_of (preparePythonEnvDir example_paths example_world))) = Inr []
   \<and> \<not> existsSync (join (pythonEnvDir example_paths) ''notes.txt'')
        (fs (world_of (preparePythonEnvDir example_paths example_world)))"
proof -
  have h1: "resolve (pythonEnvDir example_paths) \<noteq> []"
    by code_simp
  have h2: "existsSync (pythonEnvDir example_paths) (fs example_world)"
    by code_simp
  have h3: "existsSync (join (pythonEnvDir example_paths) ''notes.txt'') (fs example_world)"
    by code_simp
  note t = reset_leaves_empty_directory [of example_paths example_world
      "world_of (preparePythonEnvDir example_paths example_world)"]
  from t h1 h2 obtain w' where "preparePythonEnvDir example_paths example_world = Returned w'"
    by blast
  then have ret: "preparePythonEnvDir example_paths example_world
        = Returned (world_of (preparePythonEnvDir example_paths example_world))"
    by simp
  from t ret have "readdirSync (pythonEnvDir example_paths)
        (fs (world_of (preparePythonEnvDir example_paths example_world))) = Inr []"
    by blast
  moreover from t ret have "\<not> existsSync (join (pythonEnvDir example_paths) ''notes.txt'')
        (fs (world_of (preparePythonEnvDir example_paths example_world)))"
    by simp
  ultimately show ?thesis
    using h1 h2 h3 ret by blast
qed

section \<open>Locating and rewriting the path configuration\<close>

lemma create_no_match:
  assumes ext: "extractAllTo rt zipFileFile (pythonEnvDir bp) True (fs w) = (None, fs1)"
    and ls: "readdirSync (pythonEnvDir bp) fs1 = Inr files"
    and scan: "scan_files files = (None, None)"
  shows "\<exists>w'. createPythonEnvFromEmbeddableZip rt bp zipFileFile w = Exited 1 w' \<and> fs w' = fs1
           \<and> spawns w' = spawns w \<and> requests w' = requests w"
  using ext ls scan
  by (simp add: createPythonEnvFromEmbeddableZip_def Let_def falsy_def)

lemma create_match:
  assumes ext: "extractAllTo rt zipFileFile (pythonEnvDir bp) True (fs w) = (None, fs1)"
    and ls: "readdirSync (pythonEnvDir bp) fs1 = Inr files"
    and scan: "scan_files files = (Some v, Some f)"
    and wr: "writeFileSync (join (pythonEnvDir bp) f) (pthContent v) fs1 = Inr fs2"
  shows "\<exists>w'. createPythonEnvFromEmbeddableZip rt bp zipFileFile w = Returned w' \<and> fs w' = fs2
           \<and> spawns w' = spawns w \<and> requests w' = requests w"
proof -
  from scan have m: "pthFilePattern f = Some v"
    using scan_files_found [of files v "Some f"] by auto
  then have "v \<noteq> []" and "f \<noteq> []"
    using pth_name_simple [OF m] by (simp_all add: pthFilePattern_iff)
  with ext ls scan wr show ?thesis
    by (simp add: createPythonEnvFromEmbeddableZip_def Let_def falsy_def)
qed

lemma rewrite_succeeds:
  assumes m: "pthFilePattern f = Some v"
    and old: "readFile (join d f) fs1 = Some old"
  shows "\<exists>fs2. writeFileSync (join d f) c fs1 = Inr fs2"
proof -
  from pth_name_simple [OF m] have r: "resolve (join d f) = resolve d @ [f]"
    by (simp add: resolve_join_name)
  from old obtain x where "lookup (resolve (join d f)) fs1 = Some (File x)"
    by (auto simp: readFile_def split: option.splits node.splits)
  from write_file_total [OF this, of c] r names_directory_join [of f d] pth_name_simple [OF m]
  show ?thesis
    by (simp add: writeFileSync_name)
qed

text \<open>
  C5. When the archive has been extracted and no name in the listing of the staging
  directory is \<open>python\<close>, one or more digits, \<open>._pth\<close>, then
  \<open>createPythonEnvFromEmbeddableZip\<close> ends the process with status 1, the file system is
  as extraction left it (nothing is rewritten) and no subprocess has been started; the
  stage phase, its reset done, ends the same way, so the compressor never runs.
\<close>

theorem missing_path_config_is_fatal:
  assumes ext: "extractAllTo rt zipFileFile (pythonEnvDir bp) True (fs w) = (None, fs1)"
    and ls: "readdirSync (pythonEnvDir bp) fs1 = Inr files"
    and none: "\<forall>f\<in>set files. \<not> (\<exists>v. v \<noteq> [] \<and> list_all digit v \<and> f = ''python'' @ v @ ''._pth'')"
  shows "(\<exists>w'. createPythonEnvFromEmbeddableZip rt bp zipFileFile w = Exited 1 w'
              \<and> fs w' = fs1 \<and> spawns w' = spawns w)
         \<and> (preparePythonEnvDir bp w0 = Returned w \<longrightarrow>
              (\<exists>w'. stagePhase rt bp zipFileFile w0 = Exited 1 w' \<and> fs w' = fs1 \<and> spawns w' = spawns w0))"
proof -
  have "pthFilePattern f = None" if "f \<in> set files" for f
  proof (cases "pthFilePattern f")
    case None
    then show ?thesis .
  next
    case (Some v)
    then have "v \<noteq> [] \<and> list_all digit v \<and> f = ''python'' @ v @ ''._pth''"
      by (simp add: pthFilePattern_iff)
    with none that show ?thesis by blast
  qed
  then have "scan_files files = (None, None)"
    by (simp add: scan_files_none)
  from create_no_match [OF ext ls this] obtain w' where
    ex: "createPythonEnvFromEmbeddableZip rt bp zipFileFile w = Exited 1 w'"
    and f: "fs w' = fs1" and s: "spawns w' = spawns w"
    by blast
  have "stagePhase rt bp zipFileFile w0 = Exited 1 w' \<and> spawns w' = spawns w0"
    if ret: "preparePythonEnvDir bp w0 = Returned w"
    using ex s preparePythonEnvDir_fresh(2) [OF ret]
    by (simp add: stagePhase_def and_then_def ret)
  with ex f s show ?thesis by blast
qed

theorem missing_path_config_is_fatal_witness:
  "fst (extractAllTo no_version example_zip (pythonEnvDir example_paths) True
          (fs (world_of (preparePythonEnvDir example_paths example_world)))) = None
   \<and> readdirSync (pythonEnvDir example_paths)
         (snd (extractAllTo no_version example_zip (pythonEnvDir example_paths) True
            (fs (world_of (preparePythonEnvDir example_paths example_world)))))
       = Inr [''python.exe'', ''interpreter312._pth'']
   \<and> preparePythonEnvDir example_paths example_world
       = Returned (world_of (preparePythonEnvDir example_paths example_world))
   \<and> stagePhase no_version example_paths example_zip example_world
       = Exited 1 (world_of (stagePhase no_version example_paths example_zip example_world))
   \<and> spawns (world_of (stagePhase no_version example_paths example_zip example_world)) = []
   \<and> readFile (join (pythonEnvDir example_paths) ''interpreter312._pth'')
         (fs (world_of (stagePhase no_version example_paths example_zip example_world)))
       = Some ''python312.zip''"
proof -
  let ?w = "world_of (preparePythonEnvDir example_paths example_world)"
  let ?fs1 = "snd (extractAllTo no_version example_zip (pythonEnvDir example_paths) True (fs ?w))"
  have e: "fst (extractAllTo no_version example_zip (pythonEnvDir example_paths) True (fs ?w)) = None"
    by code_simp
  then have ext: "extractAllTo no_version example_zip (pythonEnvDir example_paths) True (fs ?w) = (None, ?fs1)"
    by (simp add: prod_eq_iff)
  have ls: "readdirSync (pythonEnvDir example_paths) ?fs1 = Inr [''python.exe'', ''interpreter312._pth'']"
    by code_simp
  have p: "pthFilePattern ''python.exe'' = None" "pthFilePattern ''interpreter312._pth'' = None"
    by code_simp+
  have none: "\<forall>f\<in>set [''python.exe'', ''interpreter312._pth''].
      \<not> (\<exists>v. v \<noteq> [] \<and> list_all digit v \<and> f = ''python'' @ v @ ''._pth'')"
    using p pthFilePattern_iff [of "''python.exe''"] pthFilePattern_iff [of "''interpreter312._pth''"]
    by auto
  have ret: "preparePythonEnvDir example_paths example_world = Returned ?w"
    by code_simp
  have s0: "spawns example_world = []"
    by code_simp
  have old: "readFile (join (pythonEnvDir example_paths) ''interpreter312._pth'') ?fs1 = Some ''python312.zip''"
    by code_simp
  note t = missing_path_config_is_fatal [OF ext ls none, of example_world]
  from t ret obtain w' where st: "stagePhase no_version example_paths example_zip example_world = Exited 1 w'"
    and f: "fs w' = ?fs1" and sp: "spawns w' = spawns example_world"
    by blast
  from st have w': "w' = world_of (stagePhase no_version example_paths example_zip example_world)"
    by simp
  from e ls ret st f sp s0 old show ?thesis
    unfolding w' [symmetric] by simp
qed

text \<open>
  C3. When the loop over the listing detects the version \<open>v\<close> in the file \<open>f\<close>, a
  regular file, \<open>createPythonEnvFromEmbeddableZip\<close> returns and the whole content of \<open>f\<close>
  is five lines, each ended by a newline: \<open>python<v>.zip\<close>, a dot, an empty line, the
  comment, and \<open>import site\<close>. The file is named \<open>python<v>._pth\<close> and \<open>v\<close> is its run of
  digits. With \<open>python312._pth\<close> the first name of the listing that matches, the version is
  \<open>312\<close> and the first line is \<open>python312.zip\<close>.
\<close>

theorem rewrite_content:
  assumes ext: "extractAllTo rt zipFileFile (pythonEnvDir bp) True (fs w) = (None, fs1)"
    and ls: "readdirSync (pythonEnvDir bp) fs1 = Inr files"
    and scan: "scan_files files = (Some v, Some f)"
    and old: "readFile (join (pythonEnvDir bp) f) fs1 = Some old"
  shows "(\<exists>w'. createPythonEnvFromEmbeddableZip rt bp zipFileFile w = Returned w'
              \<and> readFile (join (pythonEnvDir bp) f) (fs w') = Some (pthContent v))
         \<and> pthContent v =
             concat (map (\<lambda>l. l @ [newline])
               [''python'' @ v @ ''.zip'', ''.'', [],
                ''# Uncomment to run site.main() automatically'', ''import site''])
         \<and> f = ''python'' @ v @ ''._pth'' \<and> v \<noteq> [] \<and> list_all digit v
         \<and> ((\<exists>pre post. files = pre @ ''python312._pth'' # post
                \<and> (\<forall>g\<in>set pre. pthFilePattern g = None)) \<longrightarrow>
               v = ''312'' \<and> f = ''python312._pth''
               \<and> take 14 (pthContent v) = ''python312.zip'' @ [newline])"
proof -
  from scan have m: "pthFilePattern f = Some v"
    using scan_files_found [of files v "Some f"] by auto
  then have shape: "f = ''python'' @ v @ ''._pth''" "v \<noteq> []" "list_all digit v"
    by (simp_all add: pthFilePattern_iff)
  from rewrite_succeeds [OF m old] obtain fs2 where
    wr: "writeFileSync (join (pythonEnvDir bp) f) (pthContent v) fs1 = Inr fs2"
    by blast
  then have "readFile (join (pythonEnvDir bp) f) fs2 = Some (pthContent v)"
    by (rule readFile_writeFileSync)
  with create_match [OF ext ls scan wr]
  have run: "\<exists>w'. createPythonEnvFromEmbeddableZip rt bp zipFileFile w = Returned w'
              \<and> readFile (join (pythonEnvDir bp) f) (fs w') = Some (pthContent v)"
    by auto
  have lines: "pthContent v =
             concat (map (\<lambda>l. l @ [newline])
               [''python'' @ v @ ''.zip'', ''.'', [],
                ''# Uncomment to run site.main() automatically'', ''import site''])"
    by (simp add: pthContent_def)
  have v312: "v = ''312'' \<and> f = ''python312._pth''
      \<and> take 14 (pthContent v) = ''python312.zip'' @ [newline]"
    if "\<exists>pre post. files = pre @ ''python312._pth'' # post \<and> (\<forall>g\<in>set pre. pthFilePattern g = None)"
  proof -
    from that obtain pre post where files: "files = pre @ ''python312._pth'' # post"
      and pre: "\<forall>g\<in>set pre. pthFilePattern g = None"
      by blast
    have "pthFilePattern ''python312._pth'' = Some ''312''"
      by code_simp
    from scan_files_first [OF pre this, of post] scan files have "v = ''312''" and "f = ''python312._pth''"
      by simp_all
    then show ?thesis
      by (simp add: pthContent_def)
  qed
  from run lines shape v312 show ?thesis
    by blast
qed


theorem rewrite_content_witness:
  "fst (extractAllTo example_runtime example_zip (pythonEnvDir example_paths) True (fs example_world)) = None
   \<and> readdirSync (pythonEnvDir example_paths)
         (snd (extractAllTo example_runtime example_zip (pythonEnvDir example_paths) True (fs example_world)))
       = Inr [''notes.txt'', ''python.exe'', ''python312._pth'']
   \<and> scan_files [''notes.txt'', ''python.exe'', ''python312._pth''] = (Some ''312'', Some ''python312._pth'')
   \<and> readFile (join (pythonEnvDir example_paths) ''python312._pth'')
         (snd (extractAllTo example_runtime example_zip (pythonEnvDir example_paths) True (fs example_world)))
       = Some ''python312.zip''
   \<and> createPythonEnvFromEmbeddableZip example_runtime example_paths example_zip example_world
       = Returned (world_of (createPythonEnvFromEmbeddableZip example_runtime example_paths example_zip example_world))
   \<and> readFile (join (pythonEnvDir example_paths) ''python312._pth'')
         (fs (world_of (createPythonEnvFromEmbeddableZip example_runtime example_paths example_zip example_world)))
       = Some (''python312.zip'' @ [newline] @ ''.'' @ [newline] @ [newline] @
               ''# Uncomment to run site.main() automatically'' @ [newline] @ ''import site'' @ [newline])"
proof -
  let ?fs1 = "snd (extractAllTo example_runtime example_zip (pythonEnvDir example_paths) True (fs example_world))"
  have e: "fst (extractAllTo example_runtime example_zip (pythonEnvDir example_paths) True (fs example_world)) = None"
    by code_simp
  then have ext: "extractAllTo example_runtime example_zip (pythonEnvDir example_paths) True (fs example_world) = (None, ?fs1)"
    by (simp add: prod_eq_iff)
  have ls: "readdirSync (pythonEnvDir example_paths) ?fs1 = Inr [''notes.txt'', ''python.exe'', ''python312._pth'']"
    by code_simp
  have scan: "scan_files [''notes.txt'', ''python.exe'', ''python312._pth''] = (Some ''312'', Some ''python312._pth'')"
    by code_simp
  have old: "readFile (join (pythonEnvDir example_paths) ''python312._pth'') ?fs1 = Some ''python312.zip''"
    by code_simp
  have shape: "\<exists>pre post. [''notes.txt'', ''python.exe'', ''python312._pth''] = pre @ ''python312._pth'' # post
      \<and> (\<forall>g\<in>set pre. pthFilePattern g = None)"
  proof (intro exI conjI)
    show "[''notes.txt'', ''python.exe'', ''python312._pth''] = [''notes.txt'', ''python.exe''] @ ''python312._pth'' # []"
      by simp
    have "list_all (\<lambda>g. pthFilePattern g = None) [''notes.txt'', ''python.exe'']"
      by code_simp
    then show "\<forall>g\<in>set [''notes.txt'', ''python.exe'']. pthFilePattern g = None"
      by (simp add: list_all_iff)
  qed
  note t = rewrite_content [OF ext ls scan old]
  from t shape have first_line: "take 14 (pthContent ''312'') = ''python312.zip'' @ [newline]"
    by blast
  from t obtain w' where
    ret: "createPythonEnvFromEmbeddableZip example_runtime example_paths example_zip example_world = Returned w'"
    and new: "readFile (join (pythonEnvDir example_paths) ''python312._pth'') (fs w') = Some (pthContent ''312'')"
    by blast
  from ret have w': "w' = world_of (createPythonEnvFromEmbeddableZip example_runtime example_paths example_zip example_world)"
    by simp
  have c: "pthContent ''312'' = ''python312.zip'' @ [newline] @ ''.'' @ [newline] @ [newline] @
               ''# Uncomment to run site.main() automatically'' @ [newline] @ ''import site'' @ [newline]"
    by (simp add: pthContent_def)
  from e ls scan old ret new show ?thesis
    unfolding w' [symmetric] c by simp
qed

text \<open>
  C9. When several names of the listing match, the loop stops at the first: the version
  and the file name are those of the first match, that file is the one rewritten, and
  every other entry of the staging directory, a later match included, is left as it was.
\<close>

theorem first_match_wins:
  assumes ext: "extractAllTo rt zipFile (pythonEnvDir bp) True (fs w) = (None, fs1)"
    and ls: "readdirSync (pythonEnvDir bp) fs1 = Inr (pre @ f # post)"
    and first: "\<forall>g\<in>set pre. pthFilePattern g = None"
    and m: "pthFilePattern f = Some v"
    and old: "readFile (join (pythonEnvDir bp) f) fs1 = Some old"
  shows "scan_files (pre @ f # post) = (Some v, Some f)
         \<and> (\<exists>w'. createPythonEnvFromEmbeddableZip rt bp zipFile w = Returned w'
               \<and> readFile (join (pythonEnvDir bp) f) (fs w') = Some (pthContent v)
               \<and> (\<forall>g. g \<noteq> f \<longrightarrow>
                     lookup (resolve (pythonEnvDir bp) @ [g]) (fs w')
                       = lookup (resolve (pythonEnvDir bp) @ [g]) fs1))"
proof -
  from first m have scan: "scan_files (pre @ f # post) = (Some v, Some f)"
    by (rule scan_files_first)
  from pth_name_simple [OF m] have r: "resolve (join (pythonEnvDir bp) f) = resolve (pythonEnvDir bp) @ [f]"
    by (simp add: resolve_join_name)
  from rewrite_succeeds [OF m old] obtain fs2 where
    wr: "writeFileSync (join (pythonEnvDir bp) f) (pthContent v) fs1 = Inr fs2"
    by blast
  then have new: "readFile (join (pythonEnvDir bp) f) fs2 = Some (pthContent v)"
    by (rule readFile_writeFileSync)
  have others: "lookup (resolve (pythonEnvDir bp) @ [g]) fs2 = lookup (resolve (pythonEnvDir bp) @ [g]) fs1"
    if "g \<noteq> f" for g
  proof -
    from wr have "write_file (resolve (pythonEnvDir bp) @ [f]) (pthContent v) fs1 = Inr fs2"
      using writeFileSync_Inr [of "join (pythonEnvDir bp) f" "pthContent v" fs1 fs2] by (simp add: r)
    moreover from that have "\<not> prefix (resolve (pythonEnvDir bp) @ [g]) (resolve (pythonEnvDir bp) @ [f])"
      by simp
    ultimately show ?thesis
      by (rule write_file_other)
  qed
  from create_match [OF ext ls scan wr] obtain w' where
    "createPythonEnvFromEmbeddableZip rt bp zipFile w = Returned w'" and "fs w' = fs2"
    by blast
  with new others scan show ?thesis
    by auto
qed

theorem first_match_wins_witness:
  "fst (extractAllTo two_versions example_zip (pythonEnvDir example_paths) True (fs example_world)) = None
   \<and> readdirSync (pythonEnvDir example_paths)
         (snd (extractAllTo two_versions example_zip (pythonEnvDir example_paths) True (fs example_world)))
       = Inr ([''notes.txt'', ''python.exe''] @ ''python311._pth'' # [''python312._pth''])
   \<and> list_all (\<lambda>g. pthFilePattern g = None) [''notes.txt'', ''python.exe'']
   \<and> pthFilePattern ''python311._pth'' = Some ''311''
   \<and> pthFilePattern ''python312._pth'' = Some ''312''
   \<and> createPythonEnvFromEmbeddableZip two_versions example_paths example_zip example_world
       = Returned (world_of (createPythonEnvFromEmbeddableZip two_versions example_paths example_zip example_world))
   \<and> readFile (join (pythonEnvDir example_paths) ''python311._pth'')
         (fs (world_of (createPythonEnvFromEmbeddableZip two_versions example_paths example_zip example_world)))
       = Some (pthContent ''311'')
   \<and> lookup (resolve (pythonEnvDir example_paths) @ [''python312._pth''])
         (fs (world_of (createPythonEnvFromEmbeddableZip two_versions example_paths example_zip example_world)))
       = Some (File ''python312.zip'')"
proof -
  let ?fs1 = "snd (extractAllTo two_versions example_zip (pythonEnvDir example_paths) True (fs example_world))"
  have e: "fst (extractAllTo two_versions example_zip (pythonEnvDir example_paths) True (fs example_world)) = None"
    by code_simp
  then have ext: "extractAllTo two_versions example_zip (pythonEnvDir example_paths) True (fs example_world) = (None, ?fs1)"
    by (simp add: prod_eq_iff)
  have ls: "readdirSync (pythonEnvDir example_paths) ?fs1
      = Inr ([''notes.txt'', ''python.exe''] @ ''python311._pth'' # [''python312._pth''])"
    by code_simp
  have pre: "list_all (\<lambda>g. pthFilePattern g = None) [''notes.txt'', ''python.exe'']"
    by code_simp
  then have first: "\<forall>g\<in>set [''notes.txt'', ''python.exe'']. pthFilePattern g = None"
    by (simp add: list_all_iff)
  have m: "pthFilePattern ''python311._pth'' = Some ''311''"
    by code_simp
  have m2: "pthFilePattern ''python312._pth'' = Some ''312''"
    by code_simp
  have old: "readFile (join (pythonEnvDir example_paths) ''python311._pth'') ?fs1 = Some ''python311.zip''"
    by code_simp
  have other: "lookup (resolve (pythonEnvDir example_paths) @ [''python312._pth'']) ?fs1 = Some (File ''python312.zip'')"
    by code_simp
  note t = first_match_wins [OF ext ls first m old]
  from t obtain w' where
    ret: "createPythonEnvFromEmbeddableZip two_versions example_paths example_zip example_world = Returned w'"
    and new: "readFile (join (pythonEnvDir example_paths) ''python311._pth'') (fs w') = Some (pthContent ''311'')"
    and others: "\<forall>g. g \<noteq> ''python311._pth'' \<longrightarrow>
        lookup (resolve (pythonEnvDir example_paths) @ [g]) (fs w')
          = lookup (resolve (pythonEnvDir example_paths) @ [g]) ?fs1"
    by blast
  from others other have kept: "lookup (resolve (pythonEnvDir example_paths) @ [''python312._pth'']) (fs w')
      = Some (File ''python312.zip'')"
    by simp
  from ret have w': "w' = world_of (createPythonEnvFromEmbeddableZip two_versions example_paths example_zip example_world)"
    by simp
  from e ls pre m m2 ret new kept show ?thesis
    unfolding w' [symmetric] by simp
qed

section \<open>Packaging\<close>

text \<open>
  C7. \<open>compressPythonEnvironment\<close> removes whatever is at the target archive path before
  it starts the compressor: the one subprocess it starts (the 7-Zip executable with
  \<open>a\<close>, the target and the staging directory's entries, in the build directory) finds no
  entry at the target path, and, the target lying outside the staging directory, finds
  the staging directory as it is. A status other than 0, a missing status included, ends
  the process with status 1; status 0 makes the function return. A target that cannot be
  removed (the root of the file system) ends the process with status 1 before any
  subprocess.
\<close>

theorem stale_archive_removed_first:
  "let target = pythonEnvArchive (resourceFiles bp);
       before = (if existsSync target (fs w) then remove (resolve target) (fs w) else fs w);
       call = \<lparr>command = sevenZipExe (resourceFiles bp),
               arguments = [''a'', target, join (pythonEnvDir bp) ''*''],
               cwd = buildDir bp, found = before\<rparr>;
       result = spawnSync rt (command call) (arguments call) (cwd call) before;
       out = compressPythonEnvironment rt bp w
   in (resolve target \<noteq> [] \<longrightarrow>
         \<not> existsSync target before
         \<and> spawns (world_of out) = spawns w @ [call]
         \<and> fs (world_of out) = snd result
         \<and> (fst result \<noteq> Some 0 \<longrightarrow> out = Exited 1 (world_of out))
         \<and> (fst result = Some 0 \<longrightarrow> out = Returned (world_of out))
         \<and> (\<not> prefix (resolve target) (resolve (pythonEnvDir bp))
              \<and> \<not> prefix (resolve (pythonEnvDir bp)) (resolve target) \<longrightarrow>
             lookup (resolve (pythonEnvDir bp)) before = lookup (resolve (pythonEnvDir bp)) (fs w)))
      \<and> (resolve target = [] \<longrightarrow>
           out = Exited 1 (world_of out) \<and> spawns (world_of out) = spawns w
           \<and> fs (world_of out) = fs w)"
proof -
  let ?t = "pythonEnvArchive (resourceFiles bp)"
  let ?d = "pythonEnvDir bp"
  let ?before = "if existsSync ?t (fs w) then remove (resolve ?t) (fs w) else fs w"
  let ?call = "\<lparr>command = sevenZipExe (resourceFiles bp), arguments = [''a'', ?t, join ?d ''*''],
               cwd = buildDir bp, found = ?before\<rparr>"
  let ?result = "spawnSync rt (sevenZipExe (resourceFiles bp)) [''a'', ?t, join ?d ''*''] (buildDir bp) ?before"
  let ?out = "compressPythonEnvironment rt bp w"
  have root: "?out = Exited 1 (world_of ?out) \<and> spawns (world_of ?out) = spawns w \<and> fs (world_of ?out) = fs w"
    if "resolve ?t = []"
    using that
    by (simp add: compressPythonEnvironment_def Let_def and_then_def existsSync_def rmSync_def
          compress_catch_def)
  have gone: "\<not> existsSync ?t ?before" if "resolve ?t \<noteq> []"
    using that by (simp add: existsSync_def lookup_remove_same)
  have run: "spawns (world_of ?out) = spawns w @ [?call]
      \<and> fs (world_of ?out) = snd ?result
      \<and> (fst ?result \<noteq> Some 0 \<longrightarrow> ?out = Exited 1 (world_of ?out))
      \<and> (fst ?result = Some 0 \<longrightarrow> ?out = Returned (world_of ?out))"
    if ne: "resolve ?t \<noteq> []"
  proof (cases "existsSync ?t (fs w)")
    case True
    obtain st fs2 where
      sp: "spawnSync rt (sevenZipExe (resourceFiles bp)) [''a'', ?t, join ?d ''*''] (buildDir bp)
             (remove (resolve ?t) (fs w)) = (st, fs2)"
      by (cases "spawnSync rt (sevenZipExe (resourceFiles bp)) [''a'', ?t, join ?d ''*''] (buildDir bp)
             (remove (resolve ?t) (fs w))")
    from True obtain y where ex: "lookup (resolve ?t) (fs w) = Some y"
      by (auto simp: existsSync_def)
    from True ne sp ex show ?thesis
      by (simp add: compressPythonEnvironment_def Let_def and_then_def rmSync_def)
  next
    case False
    obtain st fs2 where
      sp: "spawnSync rt (sevenZipExe (resourceFiles bp)) [''a'', ?t, join ?d ''*''] (buildDir bp) (fs w)
             = (st, fs2)"
      by (cases "spawnSync rt (sevenZipExe (resourceFiles bp)) [''a'', ?t, join ?d ''*''] (buildDir bp) (fs w)")
    from False ne sp show ?thesis
      by (simp add: compressPythonEnvironment_def Let_def and_then_def)
  qed
  have kept: "lookup (resolve ?d) ?before = lookup (resolve ?d) (fs w)"
    if "\<not> prefix (resolve ?t) (resolve ?d) \<and> \<not> prefix (resolve ?d) (resolve ?t)"
    using that by (simp add: lookup_remove_other)
  from root gone run kept show ?thesis
    unfolding Let_def by simp
qed


theorem stale_archive_removed_first_witness:
  "resolve (pythonEnvArchive (resourceFiles example_paths)) \<noteq> []
   \<and> readFile (pythonEnvArchive (resourceFiles example_paths)) (fs example_world) = Some ''stale archive''
   \<and> map (\<lambda>c. existsSync (pythonEnvArchive (resourceFiles example_paths)) (found c))
         (spawns (world_of (compressPythonEnvironment example_runtime example_paths example_world)))
       = [False]
   \<and> compressPythonEnvironment example_runtime example_paths example_world
       = Returned (world_of (compressPythonEnvironment example_runtime example_paths example_world))
   \<and> readFile (pythonEnvArchive (resourceFiles example_paths))
         (fs (world_of (compressPythonEnvironment example_runtime example_paths example_world)))
       = Some ''7z''
   \<and> compressPythonEnvironment failing_compressor example_paths example_world
       = Exited 1 (world_of (compressPythonEnvironment failing_compressor example_paths example_world))"
proof -
  let ?t = "pythonEnvArchive (resourceFiles example_paths)"
  let ?before = "if existsSync ?t (fs example_world) then remove (resolve ?t) (fs example_world)
                 else fs example_world"
  have h: "resolve ?t \<noteq> []"
    by code_simp
  have stale: "readFile ?t (fs example_world) = Some ''stale archive''"
    by code_simp
  have s0: "spawns example_world = []"
    by code_simp
  have good: "fst (spawnSync example_runtime (sevenZipExe (resourceFiles example_paths))
      [''a'', ?t, join (pythonEnvDir example_paths) ''*''] (buildDir example_paths) ?before) = Some 0"
    by code_simp
  have made: "readFile ?t (snd (spawnSync example_runtime (sevenZipExe (resourceFiles example_paths))
      [''a'', ?t, join (pythonEnvDir example_paths) ''*''] (buildDir example_paths) ?before)) = Some ''7z''"
    by code_simp
  have bad: "fst (spawnSync failing_compressor (sevenZipExe (resourceFiles example_paths))
      [''a'', ?t, join (pythonEnvDir example_paths) ''*''] (buildDir example_paths) ?before) \<noteq> Some 0"
    by code_simp
  note a = stale_archive_removed_first [of example_paths example_world example_runtime, unfolded Let_def]
  note b = stale_archive_removed_first [of example_paths example_world failing_compressor, unfolded Let_def]
  from a h have gone: "\<not> existsSync ?t ?before"
    by blast
  from a h have sp: "spawns (world_of (compressPythonEnvironment example_runtime example_paths example_world))
      = spawns example_world @
        [\<lparr>command = sevenZipExe (resourceFiles example_paths),
          arguments = [''a'', ?t, join (pythonEnvDir example_paths) ''*''],
          cwd = buildDir example_paths, found = ?before\<rparr>]"
    by blast
  from a h good have ret: "compressPythonEnvironment example_runtime example_paths example_world
       = Returned (world_of (compressPythonEnvironment example_runtime example_paths example_world))"
    by simp
  from a h have "fs (world_of (compressPythonEnvironment example_runtime example_paths example_world))
      = snd (spawnSync example_runtime (sevenZipExe (resourceFiles example_paths))
          [''a'', ?t, join (pythonEnvDir example_paths) ''*''] (buildDir example_paths) ?before)"
    by simp
  with made have new: "readFile ?t
      (fs (world_of (compressPythonEnvironment example_runtime example_paths example_world))) = Some ''7z''"
    by simp
  from b h bad have ex: "compressPythonEnvironment failing_compressor example_paths example_world
       = Exited 1 (world_of (compressPythonEnvironment failing_compressor example_paths example_world))"
    by simp
  have seen: "map (\<lambda>c. existsSync ?t (found c))
         (spawns (world_of (compressPythonEnvironment example_runtime example_paths example_world)))
       = [False]"
    unfolding sp s0 using gone by simp
  from h stale seen ret new ex show ?thesis
    by blast
qed

section \<open>The entry points\<close>

text \<open>
  C2, as the code has it. Each of the two entry points prints four lines and returns:
  the file system is unchanged, no URL is requested and no subprocess is started. The
  functions that fetch, reset, extract, rewrite and compress are defined beside them and
  called by neither.
\<close>

theorem entry_points_only_print:
  "fs (main_fetch bp w) = fs w
   \<and> requests (main_fetch bp w) = requests w
   \<and> spawns (main_fetch bp w) = spawns w
   \<and> console (main_fetch bp w) =
       console w @
       [(Stdout, ''Starting Python package resources fetch...''),
        (Stdout, ''Repository Root: '' @ repoRoot bp),
        (Stdout, ''Target directory: '' @ resourcesDir bp),
        (Stdout, '' except we don'' @ [CHR 0x27] @ ''t need to do this'')]
   \<and> fs (main_prepare bp w) = fs w
   \<and> requests (main_prepare bp w) = requests w
   \<and> spawns (main_prepare bp w) = spawns w
   \<and> console (main_prepare bp w) =
       console w @
       [(Stdout, ''Starting Python environment preparation...''),
        (Stdout, ''Repository Root: '' @ repoRoot bp),
        (Stdout, ''Target directory: '' @ pythonEnvDir bp),
        (Stdout, '' This stuff doesn'' @ [CHR 0x27] @ ''t make sense on linux/docker'')]"
  by (simp add: main_fetch_def main_prepare_def Let_def log_def)

text \<open>
  C2 as stated has the entry points drive the pipeline. On the sample layout,
  \<open>main\<close> of prepare-python-env.mts leaves the old file of the staging directory and the
  old archive in place and starts no compressor, and \<open>main\<close> of
  fetch-python-package-resources.mts requests nothing and leaves the destination of an
  artifact missing.
\<close>

theorem entry_points_leave_everything:
  "existsSync (join (pythonEnvDir example_paths) ''notes.txt'') (fs (main_prepare example_paths example_world))
   \<and> readFile (pythonEnvArchive (resourceFiles example_paths)) (fs (main_prepare example_paths example_world))
       = Some ''stale archive''
   \<and> spawns (main_prepare example_paths example_world) = []
   \<and> \<not> existsSync (expectedFilePath example_paths ''https://example.org/dist/get-pip.py'')
         (fs (main_fetch example_paths example_world))
   \<and> requests (main_fetch example_paths example_world) = []"
  by code_simp

end
